theory Spec2Isabelle
  imports Complex_Main
begin

section \<open>Configuration\<close>

text \<open>
  The constants of class \<open>Config\<close> that the simulation core reads. Python floats are
  modelled as \<^typ>\<open>real\<close>, Python ints as \<^typ>\<open>int\<close>; \<open>//\<close> is \<open>div\<close>.
\<close>

definition WINDOW_WIDTH :: int where "WINDOW_WIDTH = 1200"
definition WINDOW_HEIGHT :: int where "WINDOW_HEIGHT = 800"
definition FPS :: int where "FPS = 60"
definition LANE_WIDTH :: int where "LANE_WIDTH = 40"
definition INTERSECTION_SIZE :: int where "INTERSECTION_SIZE = 200"
definition CAR_MAX_SPEED :: real where "CAR_MAX_SPEED = 4"
definition CAR_ACCELERATION :: real where "CAR_ACCELERATION = 1 / 10"
definition SAFE_DISTANCE :: int where "SAFE_DISTANCE = 35"
definition BASE_SPAWN_RATE :: real where "BASE_SPAWN_RATE = 2 / 100"
definition MAIN_ROAD_MULTIPLIER :: real where "MAIN_ROAD_MULTIPLIER = 15 / 10"
definition SIDE_ROAD_MULTIPLIER :: real where "SIDE_ROAD_MULTIPLIER = 1"
definition FIXED_GREEN_TIME :: int where "FIXED_GREEN_TIME = 20"
definition FIXED_YELLOW_TIME :: int where "FIXED_YELLOW_TIME = 3"
definition FIXED_ALL_RED_TIME :: int where "FIXED_ALL_RED_TIME = 2"
definition AI_UPDATE_INTERVAL :: real where "AI_UPDATE_INTERVAL = 2"
definition MIN_GREEN_TIME :: int where "MIN_GREEN_TIME = 12"
definition MAX_GREEN_TIME :: int where "MAX_GREEN_TIME = 50"
definition COOLDOWN_TIME :: int where "COOLDOWN_TIME = 6"
definition ANTI_STARVATION_TIME :: int where "ANTI_STARVATION_TIME = 120"
definition PRESSURE_ALPHA :: real where "PRESSURE_ALPHA = 3 / 10"
definition PRESSURE_BETA :: real where "PRESSURE_BETA = 4 / 10"
definition HYSTERESIS_MARGIN :: real where "HYSTERESIS_MARGIN = 5 / 10"

datatype SignalState = GREEN | YELLOW | RED | ALL_RED

datatype Direction = NORTH | SOUTH | EAST | WEST

text \<open>
  The road keys. The program only ever passes the two literals \<open>'main'\<close> and \<open>'side'\<close>,
  which are also the only keys of the \<open>arrival_history\<close> dict.
\<close>

datatype Road = MainRoad | SideRoad

section \<open>Car\<close>

text \<open>
  The fields of class \<open>Car\<close>. The coordinates \<open>x\<close> and \<open>y\<close> are named \<open>x_pos\<close> and
  \<open>y_pos\<close>; \<open>width\<close>, \<open>height\<close> and \<open>color\<close> are only read by the drawing code.
  The field \<open>ident\<close> stands for the identity of the Python object, which the source
  compares with \<open>other is self\<close> and which \<open>list.remove\<close> looks for.
\<close>

record Car =
  ident :: nat
  x_pos :: real
  y_pos :: real
  direction :: Direction
  speed :: real
  max_speed :: real
  is_ambulance :: bool
  spawn_time :: real
  waiting_time :: real
  is_stopped :: bool
  exit_time :: "real option"

definition Car_init :: "nat \<Rightarrow> real \<Rightarrow> real \<Rightarrow> Direction \<Rightarrow> bool \<Rightarrow> real \<Rightarrow> Car" where
  "Car_init i px py d amb spawn_sim_time =
     \<lparr>ident = i, x_pos = px, y_pos = py, direction = d, speed = 0, max_speed = CAR_MAX_SPEED,
      is_ambulance = amb, spawn_time = spawn_sim_time, waiting_time = 0,
      is_stopped = False, exit_time = None\<rparr>"

section \<open>Signal controller\<close>

record SignalController =
  controller_type :: string
  main_signal :: SignalState
  side_signal :: SignalState
  signal_timer :: real
  current_green_time :: real
  last_ai_update :: real
  last_switch_time :: real
  main_last_green :: real
  side_last_green :: real
  switching :: bool
  switch_stage :: int
  switch_start_time :: real
  arrival_history :: "Road \<Rightarrow> real list"

definition SignalController_init :: "string \<Rightarrow> real \<Rightarrow> SignalController" where
  "SignalController_init ctype start_sim_time =
     \<lparr>controller_type = ctype, main_signal = GREEN, side_signal = RED,
      signal_timer = 0, current_green_time = 0,
      last_ai_update = start_sim_time,
      last_switch_time = start_sim_time - real_of_int COOLDOWN_TIME,
      main_last_green = start_sim_time, side_last_green = start_sim_time,
      switching = False, switch_stage = 0, switch_start_time = start_sim_time,
      arrival_history = (\<lambda>r. [])\<rparr>"

text \<open>Python's \<open>a % b\<close> on floats, for a divisor \<open>b > 0\<close>: the result lies in \<open>[0, b)\<close>.\<close>

definition py_mod :: "real \<Rightarrow> real \<Rightarrow> real" where
  "py_mod a b = a - b * real_of_int \<lfloor>a / b\<rfloor>"

definition fixed_cycle :: int where
  "fixed_cycle = FIXED_GREEN_TIME * 2 + FIXED_YELLOW_TIME * 2 + FIXED_ALL_RED_TIME * 2"

definition update_fixed_signals :: "SignalController \<Rightarrow> SignalController" where
  "update_fixed_signals s =
     (let pos = py_mod (signal_timer s) (real_of_int fixed_cycle) in
      if pos < real_of_int FIXED_GREEN_TIME then
        s\<lparr>main_signal := GREEN, side_signal := RED\<rparr>
      else if pos < real_of_int (FIXED_GREEN_TIME + FIXED_YELLOW_TIME) then
        s\<lparr>main_signal := YELLOW, side_signal := RED\<rparr>
      else if pos < real_of_int (FIXED_GREEN_TIME + FIXED_YELLOW_TIME + FIXED_ALL_RED_TIME) then
        s\<lparr>main_signal := ALL_RED, side_signal := ALL_RED\<rparr>
      else if pos < real_of_int (FIXED_GREEN_TIME * 2 + FIXED_YELLOW_TIME + FIXED_ALL_RED_TIME) then
        s\<lparr>main_signal := RED, side_signal := GREEN\<rparr>
      else if pos < real_of_int (FIXED_GREEN_TIME * 2 + FIXED_YELLOW_TIME * 2 + FIXED_ALL_RED_TIME) then
        s\<lparr>main_signal := RED, side_signal := YELLOW\<rparr>
      else
        s\<lparr>main_signal := ALL_RED, side_signal := ALL_RED\<rparr>)"

definition get_signal_state :: "SignalController \<Rightarrow> Road \<Rightarrow> SignalState" where
  "get_signal_state s road = (if road = MainRoad then main_signal s else side_signal s)"

text \<open>\<open>deque(maxlen=n).append\<close>: a full deque drops its oldest entry.\<close>

definition deque_append :: "nat \<Rightarrow> 'a list \<Rightarrow> 'a \<Rightarrow> 'a list" where
  "deque_append maxlen xs v =
     (if length xs < maxlen then xs @ [v] else drop (Suc (length xs) - maxlen) (xs @ [v]))"

definition record_arrival :: "SignalController \<Rightarrow> Road \<Rightarrow> real \<Rightarrow> SignalController" where
  "record_arrival s road sim_time =
     s\<lparr>arrival_history := (arrival_history s)(road := deque_append 200 (arrival_history s road) sim_time)\<rparr>"

subsection \<open>Pressure estimation\<close>

text \<open>
  \<open>get_queue_length\<close>: the loop counts the stopped cars of the road within 1.5 lane widths
  of the centre line.
\<close>

definition queue_counts :: "Road \<Rightarrow> Car \<Rightarrow> bool" where
  "queue_counts road car =
     (let cx = real_of_int (WINDOW_WIDTH div 2); cy = real_of_int (WINDOW_HEIGHT div 2) in
      if road = MainRoad then
        direction car \<in> {NORTH, SOUTH} \<and> is_stopped car \<and>
        \<bar>x_pos car - cx\<bar> < real_of_int LANE_WIDTH * (15 / 10)
      else
        direction car \<in> {EAST, WEST} \<and> is_stopped car \<and>
        \<bar>y_pos car - cy\<bar> < real_of_int LANE_WIDTH * (15 / 10))"

fun get_queue_length_loop :: "Road \<Rightarrow> Car list \<Rightarrow> nat \<Rightarrow> nat" where
  "get_queue_length_loop road [] count = count"
| "get_queue_length_loop road (car # cars) count =
     get_queue_length_loop road cars (if queue_counts road car then count + 1 else count)"

definition get_queue_length :: "Car list \<Rightarrow> Road \<Rightarrow> nat" where
  "get_queue_length cars road = get_queue_length_loop road cars 0"

definition get_arrival_rate :: "SignalController \<Rightarrow> Road \<Rightarrow> real \<Rightarrow> real" where
  "get_arrival_rate s road sim_time =
     (let hist = arrival_history s road in
      if length hist < 2 then 0
      else real (length (filter (\<lambda>t. sim_time - t < 10) hist)) / 10)"

definition wait_counts :: "Road \<Rightarrow> Car \<Rightarrow> bool" where
  "wait_counts road car =
     (let cx = real_of_int (WINDOW_WIDTH div 2); cy = real_of_int (WINDOW_HEIGHT div 2) in
      if road = MainRoad \<and> direction car \<in> {NORTH, SOUTH} then
        \<bar>x_pos car - cx\<bar> < real_of_int (LANE_WIDTH * 2)
      else if road = SideRoad \<and> direction car \<in> {EAST, WEST} then
        \<bar>y_pos car - cy\<bar> < real_of_int (LANE_WIDTH * 2)
      else False)"

fun collect_waits :: "Road \<Rightarrow> Car list \<Rightarrow> real list \<Rightarrow> real list" where
  "collect_waits road [] waits = waits"
| "collect_waits road (car # cars) waits =
     collect_waits road cars (if wait_counts road car then waits @ [waiting_time car] else waits)"

definition get_average_wait_time :: "Car list \<Rightarrow> Road \<Rightarrow> real" where
  "get_average_wait_time cars road =
     (let waits = collect_waits road cars [] in
      if waits \<noteq> [] then sum_list waits / real (length waits) else 0)"

definition calculate_pressure :: "SignalController \<Rightarrow> Car list \<Rightarrow> Road \<Rightarrow> real \<Rightarrow> real" where
  "calculate_pressure s cars road sim_time =
     (let q = get_queue_length cars road;
          arr_rate = get_arrival_rate s road sim_time;
          avg_wait = get_average_wait_time cars road;
          avg_wait_norm = min (avg_wait / 60) 1
      in real q + (PRESSURE_ALPHA * arr_rate * 10) + (PRESSURE_BETA * avg_wait_norm * 10))"

subsection \<open>The switching sub-state machine\<close>

definition initiate_signal_switch :: "SignalController \<Rightarrow> real \<Rightarrow> SignalController" where
  "initiate_signal_switch s sim_time =
     (let s1 = s\<lparr>switching := True, switch_stage := 0, switch_start_time := sim_time,
                 last_switch_time := sim_time\<rparr>;
          s2 = (if main_signal s1 = GREEN then s1\<lparr>main_last_green := sim_time\<rparr>
                else if side_signal s1 = GREEN then s1\<lparr>side_last_green := sim_time\<rparr>
                else s1)
      in s2\<lparr>current_green_time := 0\<rparr>)"

definition handle_signal_switching :: "SignalController \<Rightarrow> real \<Rightarrow> SignalController" where
  "handle_signal_switching s sim_time =
     (let elapsed = sim_time - switch_start_time s in
      if switch_stage s = 0 then
        (let s1 = (if main_signal s = GREEN then s\<lparr>main_signal := YELLOW\<rparr>
                   else if side_signal s = GREEN then s\<lparr>side_signal := YELLOW\<rparr>
                   else s)
         in if elapsed \<ge> real_of_int FIXED_YELLOW_TIME
            then s1\<lparr>switch_stage := 1, switch_start_time := sim_time\<rparr> else s1)
      else if switch_stage s = 1 then
        (let s1 = s\<lparr>main_signal := ALL_RED, side_signal := ALL_RED\<rparr>
         in if elapsed \<ge> real_of_int FIXED_ALL_RED_TIME
            then s1\<lparr>switch_stage := 2, switch_start_time := sim_time\<rparr> else s1)
      else if switch_stage s = 2 then
        (let s1 = (if side_last_green s < main_last_green s
                   then s\<lparr>side_signal := GREEN, main_signal := RED\<rparr>
                   else s\<lparr>main_signal := GREEN, side_signal := RED\<rparr>)
         in s1\<lparr>switching := False, current_green_time := 0\<rparr>)
      else s)"

subsection \<open>The adaptive decision loop\<close>

definition make_ai_decision :: "SignalController \<Rightarrow> Car list \<Rightarrow> real \<Rightarrow> SignalController" where
  "make_ai_decision s cars sim_time =
     (let main_p = calculate_pressure s cars MainRoad sim_time;
          side_p = calculate_pressure s cars SideRoad sim_time;
          active_is_main = (main_signal s = GREEN);
          active_p = (if active_is_main then main_p else side_p);
          waiting_p = (if active_is_main then side_p else main_p);
          time_since_switch = sim_time - last_switch_time s;
          should_switch1 =
            (current_green_time s \<ge> real_of_int MIN_GREEN_TIME \<and>
             time_since_switch \<ge> real_of_int COOLDOWN_TIME \<and>
             waiting_p > active_p + HYSTERESIS_MARGIN);
          should_switch = (if current_green_time s \<ge> real_of_int MAX_GREEN_TIME
                           then True else should_switch1)
      in if should_switch then initiate_signal_switch s sim_time else s)"

definition update_ai_signals :: "SignalController \<Rightarrow> Car list \<Rightarrow> real \<Rightarrow> SignalController" where
  "update_ai_signals s cars sim_time =
     (if switching s then handle_signal_switching s sim_time
      else
        (let s1 = (if sim_time - last_ai_update s \<ge> AI_UPDATE_INTERVAL
                   then (make_ai_decision s cars sim_time)\<lparr>last_ai_update := sim_time\<rparr>
                   else s);
             active = (if main_signal s1 = GREEN then MainRoad else SideRoad);
             waiting = (if active = MainRoad then SideRoad else MainRoad);
             waiting_last = (if waiting = MainRoad then main_last_green s1 else side_last_green s1);
             waited = sim_time - waiting_last
         in if waited > real_of_int ANTI_STARVATION_TIME \<and>
               current_green_time s1 > real_of_int MIN_GREEN_TIME
            then initiate_signal_switch s1 sim_time else s1))"

definition SignalController_update ::
  "SignalController \<Rightarrow> Car list \<Rightarrow> real \<Rightarrow> real \<Rightarrow> SignalController" where
  "SignalController_update s cars dt_sim sim_time =
     (let s1 = s\<lparr>signal_timer := signal_timer s + dt_sim,
                 current_green_time := current_green_time s + dt_sim\<rparr>
      in if controller_type s1 = ''fixed'' then update_fixed_signals s1
         else update_ai_signals s1 cars sim_time)"


subsection \<open>Runs of the controller\<close>

text \<open>
  The two public operations that change a controller are \<open>update\<close> and \<open>record_arrival\<close>;
  a run applies any sequence of them, with any arguments, to a fresh controller.
\<close>

datatype Event = Update "Car list" real real | Arrival Road real

fun controller_step :: "SignalController \<Rightarrow> Event \<Rightarrow> SignalController" where
  "controller_step s (Update cars dt_sim sim_time) = SignalController_update s cars dt_sim sim_time"
| "controller_step s (Arrival road sim_time) = record_arrival s road sim_time"

definition run_controller :: "SignalController \<Rightarrow> Event list \<Rightarrow> SignalController" where
  "run_controller s evs = foldl controller_step s evs"

definition both_green :: "SignalController \<Rightarrow> bool" where
  "both_green s = (main_signal s = GREEN \<and> side_signal s = GREEN)"

definition signals :: "SignalController \<Rightarrow> SignalState \<times> SignalState" where
  "signals s = (main_signal s, side_signal s)"

text \<open>
  The main loop drives the controller with a clock: every tick adds \<open>dt_sim\<close> to the running
  \<open>sim_time\<close>, records the arrivals of the tick at that time (\<open>spawn_cars\<close>) and then calls
  \<open>update\<close> with the same \<open>dt_sim\<close> and \<open>sim_time\<close>. A tick is given by the arrivals on the
  two roads, the cars handed to \<open>update\<close> and \<open>dt_sim\<close>.
\<close>

record Tick =
  arrives_main :: bool
  arrives_side :: bool
  tick_cars :: "Car list"
  tick_dt :: real

definition controller_tick :: "real \<times> SignalController \<Rightarrow> Tick \<Rightarrow> real \<times> SignalController" where
  "controller_tick st tk =
     (let now = fst st + tick_dt tk;
          s1 = (if arrives_main tk then record_arrival (snd st) MainRoad now else snd st);
          s2 = (if arrives_side tk then record_arrival s1 SideRoad now else s1)
      in (now, SignalController_update s2 (tick_cars tk) (tick_dt tk) now))"

primrec drive :: "(nat \<Rightarrow> Tick) \<Rightarrow> nat \<Rightarrow> real \<times> SignalController \<Rightarrow> real \<times> SignalController" where
  "drive f 0 st = st"
| "drive f (Suc n) st = controller_tick (drive f n st) (f n)"

definition other_road :: "Road \<Rightarrow> Road" where
  "other_road r = (if r = MainRoad then SideRoad else MainRoad)"

section \<open>Car dynamics\<close>

definition should_stop_at_signal :: "Car \<Rightarrow> SignalController \<Rightarrow> bool" where
  "should_stop_at_signal self signal_controller =
     (let cx = WINDOW_WIDTH div 2; cy = WINDOW_HEIGHT div 2;
          half = INTERSECTION_SIZE div 2; stop_band = 50 in
      case direction self of
        NORTH \<Rightarrow>
          (let stop_y = cy + half in
           if real_of_int (stop_y - stop_band) < y_pos self \<and> y_pos self < real_of_int (stop_y + stop_band)
           then get_signal_state signal_controller MainRoad \<noteq> GREEN else False)
      | SOUTH \<Rightarrow>
          (let stop_y = cy - half in
           if real_of_int (stop_y - stop_band) < y_pos self \<and> y_pos self < real_of_int (stop_y + stop_band)
           then get_signal_state signal_controller MainRoad \<noteq> GREEN else False)
      | EAST \<Rightarrow>
          (let stop_x = cx - half in
           if real_of_int (stop_x - stop_band) < x_pos self \<and> x_pos self < real_of_int (stop_x + stop_band)
           then get_signal_state signal_controller SideRoad \<noteq> GREEN else False)
      | WEST \<Rightarrow>
          (let stop_x = cx + half in
           if real_of_int (stop_x - stop_band) < x_pos self \<and> x_pos self < real_of_int (stop_x + stop_band)
           then get_signal_state signal_controller SideRoad \<noteq> GREEN else False))"

definition is_ahead :: "Car \<Rightarrow> Car \<Rightarrow> bool" where
  "is_ahead self other =
     (case direction self of
        NORTH \<Rightarrow> y_pos other < y_pos self \<and> \<bar>x_pos other - x_pos self\<bar> < real_of_int LANE_WIDTH \<and>
                 0 < y_pos self - y_pos other \<and> y_pos self - y_pos other < real_of_int SAFE_DISTANCE
      | SOUTH \<Rightarrow> y_pos other > y_pos self \<and> \<bar>x_pos other - x_pos self\<bar> < real_of_int LANE_WIDTH \<and>
                 0 < y_pos other - y_pos self \<and> y_pos other - y_pos self < real_of_int SAFE_DISTANCE
      | EAST \<Rightarrow> x_pos other > x_pos self \<and> \<bar>y_pos other - y_pos self\<bar> < real_of_int LANE_WIDTH \<and>
                0 < x_pos other - x_pos self \<and> x_pos other - x_pos self < real_of_int SAFE_DISTANCE
      | WEST \<Rightarrow> x_pos other < x_pos self \<and> \<bar>y_pos other - y_pos self\<bar> < real_of_int LANE_WIDTH \<and>
                0 < x_pos self - x_pos other \<and> x_pos self - x_pos other < real_of_int SAFE_DISTANCE)"

fun get_car_ahead :: "Car \<Rightarrow> Car list \<Rightarrow> Car option" where
  "get_car_ahead self [] = None"
| "get_car_ahead self (other # cars) =
     (if ident other = ident self \<or> direction other \<noteq> direction self then get_car_ahead self cars
      else if is_ahead self other then Some other
      else get_car_ahead self cars)"

definition Car_update :: "Car \<Rightarrow> Car list \<Rightarrow> SignalController \<Rightarrow> real \<Rightarrow> Car" where
  "Car_update self cars signal_controller dt_sim =
     (let step_scale = dt_sim * real_of_int FPS;
          old_x = x_pos self; old_y = y_pos self;
          should_stop0 = should_stop_at_signal self signal_controller;
          should_stop = (if is_ambulance self then False else should_stop0);
          car_ahead = get_car_ahead self cars;
          c1 = (if should_stop \<or> car_ahead \<noteq> None then
                  (let v = max 0 (speed self - CAR_ACCELERATION * 2 * step_scale)
                   in self\<lparr>speed := v, is_stopped := (v \<le> 1 / 1000)\<rparr>)
                else
                  self\<lparr>speed := min (max_speed self) (speed self + CAR_ACCELERATION * step_scale),
                       is_stopped := False\<rparr>);
          delta = speed c1 * step_scale;
          c2 = (case direction c1 of
                  NORTH \<Rightarrow> c1\<lparr>y_pos := y_pos c1 - delta\<rparr>
                | SOUTH \<Rightarrow> c1\<lparr>y_pos := y_pos c1 + delta\<rparr>
                | EAST \<Rightarrow> c1\<lparr>x_pos := x_pos c1 + delta\<rparr>
                | WEST \<Rightarrow> c1\<lparr>x_pos := x_pos c1 - delta\<rparr>)
      in if is_stopped c2 \<and> (\<bar>x_pos c2 - old_x\<bar> < 1 / 1000 \<and> \<bar>y_pos c2 - old_y\<bar> < 1 / 1000)
         then c2\<lparr>waiting_time := waiting_time c2 + dt_sim\<rparr> else c2)"

definition is_off_screen :: "Car \<Rightarrow> bool" where
  "is_off_screen self =
     (let m = 100 in
      x_pos self < real_of_int (- m) \<or> x_pos self > real_of_int (WINDOW_WIDTH + m) \<or>
      y_pos self < real_of_int (- m) \<or> y_pos self > real_of_int (WINDOW_HEIGHT + m))"

text \<open>
  A car driven through a sequence of update ticks, each with its own list of cars, its own
  state of the signals and its own \<open>dt_sim\<close>.
\<close>

fun Car_updates :: "Car \<Rightarrow> (Car list \<times> SignalController \<times> real) list \<Rightarrow> Car" where
  "Car_updates self [] = self"
| "Car_updates self ((cars, signal_controller, dt_sim) # ticks) =
     Car_updates (Car_update self cars signal_controller dt_sim) ticks"

section \<open>Metrics\<close>

record MetricsCollector =
  total_cars_spawned :: nat
  total_cars_exited :: nat
  total_wait_time :: real
  sim_start_time :: real
  throughput_history :: "real list"

definition reset :: "real \<Rightarrow> MetricsCollector" where
  "reset start_sim_time =
     \<lparr>total_cars_spawned = 0, total_cars_exited = 0, total_wait_time = 0,
      sim_start_time = start_sim_time, throughput_history = []\<rparr>"

definition MetricsCollector_init :: MetricsCollector where
  "MetricsCollector_init = reset 0"


text \<open>\<open>record_car_exit\<close> changes the collector and stamps the car; both are returned.\<close>

definition record_car_exit :: "MetricsCollector \<Rightarrow> Car \<Rightarrow> real \<Rightarrow> MetricsCollector \<times> Car" where
  "record_car_exit m car sim_time =
     (m\<lparr>total_cars_exited := total_cars_exited m + 1,
        total_wait_time := total_wait_time m + waiting_time car,
        throughput_history := deque_append 400 (throughput_history m) sim_time\<rparr>,
      car\<lparr>exit_time := Some sim_time\<rparr>)"

definition Metrics_get_average_wait_time :: "MetricsCollector \<Rightarrow> real" where
  "Metrics_get_average_wait_time m =
     (if total_cars_exited m = 0 then 0 else total_wait_time m / real (total_cars_exited m))"

definition get_throughput_per_minute :: "MetricsCollector \<Rightarrow> real \<Rightarrow> nat" where
  "get_throughput_per_minute m sim_time =
     length (filter (\<lambda>t. sim_time - t < 60) (throughput_history m))"

definition get_simulation_time :: "MetricsCollector \<Rightarrow> real \<Rightarrow> real" where
  "get_simulation_time m sim_time = sim_time - sim_start_time m"

text \<open>The exits of a list of cars, each with the simulation time of its exit, in order.\<close>

fun record_exits :: "MetricsCollector \<Rightarrow> (Car \<times> real) list \<Rightarrow> MetricsCollector" where
  "record_exits m [] = m"
| "record_exits m ((car, sim_time) # exits) = record_exits (fst (record_car_exit m car sim_time)) exits"

section \<open>Views of the switching state machine\<close>

text \<open>
  The last-green timestamp of a road, the fields of the switching state machine, and the
  phases that a switch goes through between \<open>initiate_signal_switch\<close> and the grant of the
  new green, for the road \<open>r\<close> that held green when the switch was initiated. \<open>arrived\<close> is
  the controller in the middle of a tick of the main loop, after the arrivals were recorded
  and the two timers advanced.
\<close>

definition last_green :: "SignalController \<Rightarrow> Road \<Rightarrow> real" where
  "last_green s r = (if r = MainRoad then main_last_green s else side_last_green s)"

definition fsm_view :: "SignalController \<Rightarrow> SignalState \<times> SignalState \<times> bool \<times> int \<times> real" where
  "fsm_view s = (main_signal s, side_signal s, switching s, switch_stage s, switch_start_time s)"

definition adaptive_inv :: "real \<times> SignalController \<Rightarrow> bool" where
  "adaptive_inv st =
     (controller_type (snd st) \<noteq> ''fixed'' \<and> 0 \<le> current_green_time (snd st) \<and>
      main_last_green (snd st) + current_green_time (snd st) \<le> fst st \<and>
      side_last_green (snd st) + current_green_time (snd st) \<le> fst st \<and>
      (switching (snd st) \<or> signals (snd st) = (GREEN, RED) \<or> signals (snd st) = (RED, GREEN)))"

definition yellow_phase :: "Road \<Rightarrow> real \<Rightarrow> SignalController \<Rightarrow> bool" where
  "yellow_phase r t0 s =
     (controller_type s \<noteq> ''fixed'' \<and> switching s \<and> switch_stage s = 0 \<and> switch_start_time s = t0 \<and>
      (get_signal_state s r = GREEN \<or> get_signal_state s r = YELLOW) \<and>
      get_signal_state s (other_road r) = RED \<and>
      last_green s (other_road r) < last_green s r)"

definition all_red_phase :: "Road \<Rightarrow> real \<Rightarrow> SignalController \<Rightarrow> bool" where
  "all_red_phase r t1 s =
     (controller_type s \<noteq> ''fixed'' \<and> switching s \<and> switch_stage s = 1 \<and> switch_start_time s = t1 \<and>
      last_green s (other_road r) < last_green s r)"

definition granting_phase :: "Road \<Rightarrow> SignalController \<Rightarrow> bool" where
  "granting_phase r s =
     (controller_type s \<noteq> ''fixed'' \<and> switching s \<and> switch_stage s = 2 \<and>
      signals s = (ALL_RED, ALL_RED) \<and> last_green s (other_road r) < last_green s r)"

definition granted :: "Road \<Rightarrow> SignalController \<Rightarrow> bool" where
  "granted r s =
     (\<not> switching s \<and> get_signal_state s (other_road r) = GREEN \<and> get_signal_state s r = RED \<and>
      last_green s (other_road r) < last_green s r)"

definition arrived :: "real \<times> SignalController \<Rightarrow> Tick \<Rightarrow> SignalController" where
  "arrived st tk =
     (let now = fst st + tick_dt tk;
          s1 = (if arrives_main tk then record_arrival (snd st) MainRoad now else snd st);
          s2 = (if arrives_side tk then record_arrival s1 SideRoad now else s1)
      in s2\<lparr>signal_timer := signal_timer s2 + tick_dt tk,
             current_green_time := current_green_time s2 + tick_dt tk\<rparr>)"

definition completes_switch :: "(nat \<Rightarrow> Tick) \<Rightarrow> real \<times> SignalController \<Rightarrow> nat \<Rightarrow> bool" where
  "completes_switch f st0 m =
     (\<exists>r a b. get_signal_state (snd (drive f m st0)) r = GREEN \<and> Suc m < a \<and> a < b \<and>
        (\<forall>k. Suc m \<le> k \<and> k < a \<longrightarrow>
           switching (snd (drive f k st0)) \<and> switch_stage (snd (drive f k st0)) = 0) \<and>
        (\<forall>k. Suc m < k \<and> k \<le> a \<longrightarrow>
           get_signal_state (snd (drive f k st0)) r = YELLOW \<and>
           get_signal_state (snd (drive f k st0)) (other_road r) = RED) \<and>
        (\<forall>k. a \<le> k \<and> k < b \<longrightarrow>
           switching (snd (drive f k st0)) \<and> switch_stage (snd (drive f k st0)) = 1) \<and>
        (\<forall>k. a < k \<and> k \<le> b \<longrightarrow> signals (snd (drive f k st0)) = (ALL_RED, ALL_RED)) \<and>
        switching (snd (drive f b st0)) \<and> switch_stage (snd (drive f b st0)) = 2 \<and>
        \<not> switching (snd (drive f (Suc b) st0)) \<and>
        get_signal_state (snd (drive f (Suc b) st0)) (other_road r) = GREEN \<and>
        get_signal_state (snd (drive f (Suc b) st0)) r = RED \<and>
        last_green (snd (drive f (Suc b) st0)) (other_road r) < last_green (snd (drive f (Suc b) st0)) r \<and>
        (\<forall>k tk. Suc m \<le> k \<and> k \<le> b \<and> tick_dt tk = tick_dt (f k) \<longrightarrow>
           fsm_view (snd (controller_tick (drive f k st0) tk)) = fsm_view (snd (drive f (Suc k) st0))))"

section \<open>Views of the decision loop\<close>

text \<open>
  The locals \<open>active_p\<close> and \<open>waiting_p\<close> of \<open>make_ai_decision\<close>, and the locals \<open>waiting\<close>
  and \<open>waiting_last\<close> of \<open>update_ai_signals\<close>, as functions of the state.
\<close>

definition active_pressure :: "SignalController \<Rightarrow> Car list \<Rightarrow> real \<Rightarrow> real" where
  "active_pressure s cars sim_time =
     (if main_signal s = GREEN then calculate_pressure s cars MainRoad sim_time
      else calculate_pressure s cars SideRoad sim_time)"

definition waiting_pressure :: "SignalController \<Rightarrow> Car list \<Rightarrow> real \<Rightarrow> real" where
  "waiting_pressure s cars sim_time =
     (if main_signal s = GREEN then calculate_pressure s cars SideRoad sim_time
      else calculate_pressure s cars MainRoad sim_time)"

definition waiting_last_green :: "SignalController \<Rightarrow> real" where
  "waiting_last_green s = (if main_signal s = GREEN then side_last_green s else main_last_green s)"

text \<open>
  The locals of \<open>Car.update\<close>: whether the car brakes in the tick (\<open>should_stop or car_ahead\<close>),
  the speed it gets, and \<open>delta\<close>, the distance it moves.
\<close>

definition braking :: "Car \<Rightarrow> Car list \<Rightarrow> SignalController \<Rightarrow> bool" where
  "braking c cars sc =
     ((if is_ambulance c then False else should_stop_at_signal c sc) \<or> get_car_ahead c cars \<noteq> None)"

definition next_speed :: "Car \<Rightarrow> Car list \<Rightarrow> SignalController \<Rightarrow> real \<Rightarrow> real" where
  "next_speed c cars sc dt =
     (if braking c cars sc then max 0 (speed c - CAR_ACCELERATION * 2 * (dt * real_of_int FPS))
      else min (max_speed c) (speed c + CAR_ACCELERATION * (dt * real_of_int FPS)))"

definition travel :: "Car \<Rightarrow> Car list \<Rightarrow> SignalController \<Rightarrow> real \<Rightarrow> real" where
  "travel c cars sc dt = next_speed c cars sc dt * (dt * real_of_int FPS)"

section \<open>Example inputs\<close>

text \<open>A stopped car in the queue of its road, 20 px from the centre line.\<close>

definition queued_car :: "nat \<Rightarrow> Direction \<Rightarrow> Car" where
  "queued_car i d =
     (if d = NORTH \<or> d = SOUTH then (Car_init i 580 520 d False 0)\<lparr>is_stopped := True\<rparr>
      else (Car_init i 520 380 d False 0)\<lparr>is_stopped := True\<rparr>)"

definition ten_queued_cars :: "Car list" where
  "ten_queued_cars =
     [queued_car 0 NORTH, queued_car 1 NORTH, queued_car 2 NORTH, queued_car 3 NORTH,
      queued_car 4 NORTH, queued_car 5 EAST, queued_car 6 EAST, queued_car 7 EAST,
      queued_car 8 EAST, queued_car 9 EAST]"

text \<open>
  An adaptive controller with main GREEN for \<open>g\<close> seconds and two recorded arrivals on the
  side road, at the times \<open>a\<close> and 95.
\<close>

definition hysteresis_state :: "real \<Rightarrow> real \<Rightarrow> SignalController" where
  "hysteresis_state g a =
     (record_arrival (record_arrival (SignalController_init ''ai'' 0) SideRoad a) SideRoad 95)
       \<lparr>current_green_time := g\<rparr>"

text \<open>A car braking at the red main signal with a speed just above the braking step.\<close>

definition creeping_car :: Car where
  "creeping_car = (Car_init 0 580 520 NORTH False 0)\<lparr>speed := 2005 / 10000\<rparr>"

definition red_main :: SignalController where
  "red_main = (SignalController_init ''fixed'' 0)\<lparr>main_signal := RED, side_signal := GREEN\<rparr>"

text \<open>An ambulance and an ordinary car at the same place in front of the red main signal.\<close>

definition ambulance_at_red :: Car where
  "ambulance_at_red = (Car_init 0 580 520 NORTH True 0)\<lparr>speed := 2\<rparr>"

definition car_at_red :: Car where
  "car_at_red = (Car_init 0 580 520 NORTH False 0)\<lparr>speed := 2\<rparr>"

definition car_in_front :: Car where
  "car_in_front = (Car_init 1 580 500 NORTH False 0)"

text \<open>
  A run of the adaptive controller from time 0: 12 s of main green with a car queued on the
  side road, so that the decision loop switches; yellow; a tick of 110 s during all-red; the
  grant of side green; and a tick that brings the side green to exactly 12 s.
\<close>

definition starvation_ticks :: "nat \<Rightarrow> Tick" where
  "starvation_ticks n =
     (if n = 0 then \<lparr>arrives_main = False, arrives_side = False, tick_cars = [queued_car 0 EAST], tick_dt = 12\<rparr>
      else if n = 1 then \<lparr>arrives_main = False, arrives_side = False, tick_cars = [], tick_dt = 3\<rparr>
      else if n = 2 then \<lparr>arrives_main = False, arrives_side = False, tick_cars = [], tick_dt = 110\<rparr>
      else if n = 3 then \<lparr>arrives_main = False, arrives_side = False, tick_cars = [], tick_dt = 1\<rparr>
      else \<lparr>arrives_main = False, arrives_side = False, tick_cars = [], tick_dt = 12\<rparr>)"

section \<open>The simulation\<close>

text \<open>
  The parts of pygame and of the \<open>random\<close> module that the core uses. A \<open>pygame.Rect\<close> is
  given by its left and top edge, its width and its height; \<open>inflate\<close> grows it around its
  centre and \<open>collidepoint\<close> includes the left and top edge and excludes the right and bottom
  edge. \<open>int\<close> on a float truncates towards zero.
\<close>

record Rect =
  rect_x :: int
  rect_y :: int
  rect_w :: int
  rect_h :: int

definition inflate :: "Rect \<Rightarrow> int \<Rightarrow> int \<Rightarrow> Rect" where
  "inflate r dx dy =
     \<lparr>rect_x = rect_x r - dx div 2, rect_y = rect_y r - dy div 2,
      rect_w = rect_w r + dx, rect_h = rect_h r + dy\<rparr>"

definition collidepoint :: "Rect \<Rightarrow> int \<Rightarrow> int \<Rightarrow> bool" where
  "collidepoint r px py =
     (rect_x r \<le> px \<and> px < rect_x r + rect_w r \<and> rect_y r \<le> py \<and> py < rect_y r + rect_h r)"

definition py_int :: "real \<Rightarrow> int" where
  "py_int v = (if 0 \<le> v then \<lfloor>v\<rfloor> else \<lceil>v\<rceil>)"

text \<open>
  The state of a \<open>TrafficSimulation\<close> whose run has been started (\<open>signal_controller\<close> is
  \<open>None\<close> only before the first \<open>start_simulation\<close>). The global random generator is part
  of the state: \<open>random_source n\<close> is the number that the \<open>n\<close>-th call of the \<open>random\<close>
  module draws, \<open>random_calls\<close> counts the calls made so far. \<open>cars_created\<close> numbers the
  \<open>Car\<close> objects and gives each its identity. The screen, the fonts, the buttons and the
  cached metrics belong to the user interface.
\<close>

record TrafficSimulation =
  cars :: "Car list"
  signal_controller :: SignalController
  metrics :: MetricsCollector
  running :: bool
  simulation_speed :: real
  incident_active :: bool
  ambulance_mode :: bool
  show_menu :: bool
  sim_time :: real
  dt_sim :: real
  incident_rect :: Rect
  random_source :: "nat \<Rightarrow> real"
  random_calls :: nat
  cars_created :: nat













text \<open>
  \<open>update_cars\<close> walks over a copy of the list while it changes the cars in place and removes
  from the list the ones that left the screen. \<open>replace_car\<close> writes a changed car back to
  its place in the list and \<open>remove_car\<close> is \<open>list.remove\<close>, both by identity. A car is only
  changed in its own turn, so the copy holds it as it is when its turn comes.
\<close>

definition replace_car :: "Car \<Rightarrow> Car list \<Rightarrow> Car list" where
  "replace_car car cs = map (\<lambda>other. if ident other = ident car then car else other) cs"

fun remove_car :: "Car \<Rightarrow> Car list \<Rightarrow> Car list" where
  "remove_car car [] = []"
| "remove_car car (other # cs) = (if ident other = ident car then cs else other # remove_car car cs)"

definition update_one_car :: "Car \<Rightarrow> TrafficSimulation \<Rightarrow> TrafficSimulation" where
  "update_one_car car sim =
     (let car1 = car\<lparr>max_speed := CAR_MAX_SPEED\<rparr>;
          car2 = (if incident_active sim \<and> \<not> is_ambulance car1 then
                    (let expand = 30; inc = inflate (incident_rect sim) expand expand in
                     if collidepoint inc (py_int (x_pos car1)) (py_int (y_pos car1))
                     then car1\<lparr>max_speed := min (max_speed car1) (15 / 10)\<rparr> else car1)
                  else car1);
          car3 = Car_update car2 (replace_car car2 (cars sim)) (signal_controller sim) (dt_sim sim);
          sim1 = sim\<lparr>cars := replace_car car3 (cars sim)\<rparr>
      in if is_off_screen car3 then
           (let (m, car4) = record_car_exit (metrics sim1) car3 (sim_time sim1)
            in sim1\<lparr>metrics := m, cars := remove_car car4 (cars sim1)\<rparr>)
         else sim1)"

fun update_cars_loop :: "Car list \<Rightarrow> TrafficSimulation \<Rightarrow> TrafficSimulation" where
  "update_cars_loop [] sim = sim"
| "update_cars_loop (car # rest) sim = update_cars_loop rest (update_one_car car sim)"

definition update_cars :: "TrafficSimulation \<Rightarrow> TrafficSimulation" where
  "update_cars sim = update_cars_loop (cars sim) sim"

definition start_simulation :: "string \<Rightarrow> TrafficSimulation \<Rightarrow> TrafficSimulation" where
  "start_simulation mode sim =
     sim\<lparr>signal_controller := SignalController_init mode (sim_time sim),
         metrics := reset (sim_time sim), cars := [],
         show_menu := False, running := True, incident_active := False, ambulance_mode := False\<rparr>"






section \<open>Properties of the signal controller\<close>

lemmas Config_defs =
  WINDOW_WIDTH_def WINDOW_HEIGHT_def FPS_def LANE_WIDTH_def INTERSECTION_SIZE_def
  CAR_MAX_SPEED_def CAR_ACCELERATION_def SAFE_DISTANCE_def BASE_SPAWN_RATE_def
  MAIN_ROAD_MULTIPLIER_def SIDE_ROAD_MULTIPLIER_def FIXED_GREEN_TIME_def
  FIXED_YELLOW_TIME_def FIXED_ALL_RED_TIME_def AI_UPDATE_INTERVAL_def MIN_GREEN_TIME_def
  MAX_GREEN_TIME_def COOLDOWN_TIME_def ANTI_STARVATION_TIME_def PRESSURE_ALPHA_def
  PRESSURE_BETA_def HYSTERESIS_MARGIN_def

subsection \<open>Mutual exclusion\<close>

lemma both_green_fixed: "\<not> both_green (update_fixed_signals s)"
  by (simp add: update_fixed_signals_def both_green_def Let_def)

lemma both_green_initiate: "both_green (initiate_signal_switch s t) = both_green s"
  by (simp add: initiate_signal_switch_def both_green_def Let_def)

lemma both_green_handle: "\<not> both_green s \<Longrightarrow> \<not> both_green (handle_signal_switching s t)"
  by (auto simp add: handle_signal_switching_def both_green_def Let_def)

lemma both_green_decision: "both_green (make_ai_decision s cs t) = both_green s"
  by (simp add: make_ai_decision_def Let_def both_green_initiate)

lemma both_green_last_ai: "both_green (s\<lparr>last_ai_update := t\<rparr>) = both_green s"
  by (simp add: both_green_def)

lemma both_green_ai: "\<not> both_green s \<Longrightarrow> \<not> both_green (update_ai_signals s cs t)"
  unfolding update_ai_signals_def Let_def
  by (simp add: both_green_handle both_green_initiate both_green_decision both_green_last_ai)

lemma both_green_timers:
  "both_green (s\<lparr>signal_timer := a, current_green_time := b\<rparr>) = both_green s"
  by (simp add: both_green_def)

lemma both_green_update: "\<not> both_green s \<Longrightarrow> \<not> both_green (SignalController_update s cs dt t)"
  unfolding SignalController_update_def Let_def
  by (simp add: both_green_fixed both_green_ai both_green_timers)

lemma both_green_arrival: "both_green (record_arrival s r t) = both_green s"
  by (simp add: record_arrival_def both_green_def)

lemma both_green_step: "\<not> both_green s \<Longrightarrow> \<not> both_green (controller_step s e)"
  by (cases e) (simp_all add: both_green_update both_green_arrival)

lemma both_green_run: "\<not> both_green s \<Longrightarrow> \<not> both_green (run_controller s evs)"
  unfolding run_controller_def
  by (induction evs arbitrary: s) (simp_all add: both_green_step)

text \<open>
  C1. A controller of either mode (\<open>ctype\<close> is \<open>''fixed''\<close> or anything else, which selects
  the adaptive mode), created at any start time and taken through any sequence of
  \<open>update\<close> and \<open>record_arrival\<close> calls with any arguments, never shows GREEN on the main
  road and on the side road at the same time.
\<close>

theorem mutual_exclusion:
  "\<not> (main_signal (run_controller (SignalController_init ctype t0) evs) = GREEN \<and>
      side_signal (run_controller (SignalController_init ctype t0) evs) = GREEN)"
proof -
  have "\<not> both_green (SignalController_init ctype t0)"
    by (simp add: both_green_def SignalController_init_def)
  then have "\<not> both_green (run_controller (SignalController_init ctype t0) evs)"
    by (rule both_green_run)
  then show ?thesis
    by (simp add: both_green_def)
qed

subsection \<open>The fixed cycle\<close>

lemma fixed_signals_pos:
  "signals (update_fixed_signals s) =
     (let pos = py_mod (signal_timer s) 50 in
      if pos < 20 then (GREEN, RED) else if pos < 23 then (YELLOW, RED)
      else if pos < 25 then (ALL_RED, ALL_RED) else if pos < 45 then (RED, GREEN)
      else if pos < 48 then (RED, YELLOW) else (ALL_RED, ALL_RED))"
  by (simp add: update_fixed_signals_def signals_def fixed_cycle_def Config_defs Let_def)

text \<open>
  C6. With the configured durations (green 20 s, yellow 3 s, all-red 2 s) the signals that
  \<open>update_fixed_signals\<close> sets depend on \<open>signal_timer\<close> only through its remainder modulo
  the cycle length: two controllers whose timers have the same remainder get the same
  signals. At \<open>signal_timer = 19.9\<close> main is GREEN, at \<open>20.5\<close> main is YELLOW, at \<open>23.5\<close>
  both roads are ALL_RED and at \<open>26\<close> side is GREEN.
\<close>

theorem fixed_cycle_schedule:
  "(py_mod (signal_timer s) (real_of_int fixed_cycle) = py_mod (signal_timer s') (real_of_int fixed_cycle)
      \<longrightarrow> signals (update_fixed_signals s) = signals (update_fixed_signals s')) \<and>
   main_signal (update_fixed_signals (s\<lparr>signal_timer := 199 / 10\<rparr>)) = GREEN \<and>
   main_signal (update_fixed_signals (s\<lparr>signal_timer := 205 / 10\<rparr>)) = YELLOW \<and>
   signals (update_fixed_signals (s\<lparr>signal_timer := 235 / 10\<rparr>)) = (ALL_RED, ALL_RED) \<and>
   side_signal (update_fixed_signals (s\<lparr>signal_timer := 26\<rparr>)) = GREEN"
proof -
  have cyc: "real_of_int fixed_cycle = 50"
    by (simp add: fixed_cycle_def Config_defs)
  have a: "signals (update_fixed_signals (s\<lparr>signal_timer := 199 / 10\<rparr>)) = (GREEN, RED)"
    by (simp add: fixed_signals_pos py_mod_def)
  have b: "signals (update_fixed_signals (s\<lparr>signal_timer := 205 / 10\<rparr>)) = (YELLOW, RED)"
    by (simp add: fixed_signals_pos py_mod_def)
  have c: "signals (update_fixed_signals (s\<lparr>signal_timer := 235 / 10\<rparr>)) = (ALL_RED, ALL_RED)"
    by (simp add: fixed_signals_pos py_mod_def)
  have d: "signals (update_fixed_signals (s\<lparr>signal_timer := 26\<rparr>)) = (RED, GREEN)"
    by (simp add: fixed_signals_pos py_mod_def)
  have e: "py_mod (signal_timer s) (real_of_int fixed_cycle) = py_mod (signal_timer s') (real_of_int fixed_cycle)
      \<longrightarrow> signals (update_fixed_signals s) = signals (update_fixed_signals s')"
    by (simp add: cyc fixed_signals_pos)
  from a have a': "main_signal (update_fixed_signals (s\<lparr>signal_timer := 199 / 10\<rparr>)) = GREEN"
    by (simp add: signals_def)
  from b have b': "main_signal (update_fixed_signals (s\<lparr>signal_timer := 205 / 10\<rparr>)) = YELLOW"
    by (simp add: signals_def)
  from d have d': "side_signal (update_fixed_signals (s\<lparr>signal_timer := 26\<rparr>)) = GREEN"
    by (simp add: signals_def)
  from e a' b' c d' show ?thesis by blast
qed

text \<open>
  The schedule at a concrete pair of timers one cycle apart, 19.9 s and 69.9 s: the
  remainders agree and so do the signals, main GREEN and side RED.
\<close>

theorem fixed_cycle_schedule_witness:
  "py_mod (signal_timer (SignalController_init ''fixed'' 0\<lparr>signal_timer := 199 / 10\<rparr>)) (real_of_int fixed_cycle) =
   py_mod (signal_timer (SignalController_init ''fixed'' 0\<lparr>signal_timer := 699 / 10\<rparr>)) (real_of_int fixed_cycle) \<and>
   signals (update_fixed_signals (SignalController_init ''fixed'' 0\<lparr>signal_timer := 199 / 10\<rparr>)) =
   signals (update_fixed_signals (SignalController_init ''fixed'' 0\<lparr>signal_timer := 699 / 10\<rparr>)) \<and>
   signals (update_fixed_signals (SignalController_init ''fixed'' 0\<lparr>signal_timer := 699 / 10\<rparr>)) = (GREEN, RED)"
proof -
  have h: "py_mod (signal_timer (SignalController_init ''fixed'' 0\<lparr>signal_timer := 199 / 10\<rparr>)) (real_of_int fixed_cycle) =
   py_mod (signal_timer (SignalController_init ''fixed'' 0\<lparr>signal_timer := 699 / 10\<rparr>)) (real_of_int fixed_cycle)"
    by (simp add: py_mod_def fixed_cycle_def Config_defs)
  have g: "signals (update_fixed_signals (SignalController_init ''fixed'' 0\<lparr>signal_timer := 699 / 10\<rparr>)) = (GREEN, RED)"
    by (simp add: fixed_signals_pos py_mod_def)
  from fixed_cycle_schedule [of "SignalController_init ''fixed'' 0\<lparr>signal_timer := 199 / 10\<rparr>"
              "SignalController_init ''fixed'' 0\<lparr>signal_timer := 699 / 10\<rparr>"] h
  have e: "signals (update_fixed_signals (SignalController_init ''fixed'' 0\<lparr>signal_timer := 199 / 10\<rparr>)) =
   signals (update_fixed_signals (SignalController_init ''fixed'' 0\<lparr>signal_timer := 699 / 10\<rparr>))"
    by blast
  show ?thesis using h e g by simp
qed

subsection \<open>The pressure score\<close>

lemma get_queue_length_loop_filter:
  "get_queue_length_loop r cs n = n + length (filter (queue_counts r) cs)"
  by (induction cs arbitrary: n) simp_all

lemma collect_waits_filter:
  "collect_waits r cs ws = ws @ map waiting_time (filter (wait_counts r) cs)"
  by (induction cs arbitrary: ws) simp_all

text \<open>
  C5, as the code has it. The pressure of a road is the number of cars that count for its
  queue, plus alpha times the arrival rate times 10, plus beta times the capped average wait
  times 10. The arrival rate is the number of history entries newer than 10 simulated seconds
  divided by 10 only when the history holds at least two entries; with fewer than two
  entries the rate is 0. The average wait is the mean waiting time of the cars in the capture
  band of the road, 0 when there is none.
\<close>

theorem pressure_formula:
  "calculate_pressure s cs r t =
     real (length (filter (queue_counts r) cs))
     + PRESSURE_ALPHA *
         (if length (arrival_history s r) < 2 then 0
          else real (length (filter (\<lambda>a. t - a < 10) (arrival_history s r))) / 10) * 10
     + PRESSURE_BETA *
         min ((if filter (wait_counts r) cs = [] then 0
               else sum_list (map waiting_time (filter (wait_counts r) cs)) /
                    real (length (filter (wait_counts r) cs))) / 60) 1 * 10"
  by (simp add: calculate_pressure_def get_queue_length_def get_queue_length_loop_filter
      get_arrival_rate_def get_average_wait_time_def collect_waits_filter Let_def)

text \<open>
  The claim as the specification states it, with the rate taken as count / 10 for any
  contents of the history, fails on a history of one entry: after a single arrival on the main
  road at time 0, the pressure of the empty main road at time 1 is 0, not 0.3.
\<close>

theorem pressure_formula_counterexample:
  "calculate_pressure (record_arrival (SignalController_init ''ai'' 0) MainRoad 0) [] MainRoad 1 = 0 \<and>
   real (get_queue_length [] MainRoad)
     + PRESSURE_ALPHA *
         (real (length (filter (\<lambda>a. 1 - a < 10)
            (arrival_history (record_arrival (SignalController_init ''ai'' 0) MainRoad 0) MainRoad))) / 10) * 10
     + PRESSURE_BETA * min (get_average_wait_time [] MainRoad / 60) 1 * 10 = 3 / 10"
  by (simp add: calculate_pressure_def get_queue_length_def get_arrival_rate_def
      get_average_wait_time_def record_arrival_def SignalController_init_def deque_append_def
      PRESSURE_ALPHA_def PRESSURE_BETA_def)

subsection \<open>Hysteresis of the decision loop\<close>

lemma queue_main: "get_queue_length ten_queued_cars MainRoad = 5"
  by (simp add: get_queue_length_def ten_queued_cars_def queued_car_def Car_init_def
      queue_counts_def Config_defs)

lemma queue_side: "get_queue_length ten_queued_cars SideRoad = 5"
  by (simp add: get_queue_length_def ten_queued_cars_def queued_car_def Car_init_def
      queue_counts_def Config_defs)

lemma wait_main: "get_average_wait_time ten_queued_cars MainRoad = 0"
  by (simp add: get_average_wait_time_def ten_queued_cars_def queued_car_def Car_init_def
      wait_counts_def Config_defs)

lemma wait_side: "get_average_wait_time ten_queued_cars SideRoad = 0"
  by (simp add: get_average_wait_time_def ten_queued_cars_def queued_car_def Car_init_def
      wait_counts_def Config_defs)

lemma rate_main: "get_arrival_rate (hysteresis_state g a) MainRoad t = 0"
  by (simp add: get_arrival_rate_def hysteresis_state_def record_arrival_def
      SignalController_init_def)

lemma hist_side: "arrival_history (hysteresis_state g a) SideRoad = [a, 95]"
  by (simp add: hysteresis_state_def record_arrival_def SignalController_init_def
      deque_append_def)

lemma rate_side0: "get_arrival_rate (hysteresis_state g 0) SideRoad 100 = 1 / 10"
  by (simp add: get_arrival_rate_def hist_side)

lemma rate_side94: "get_arrival_rate (hysteresis_state g 94) SideRoad 100 = 2 / 10"
  by (simp add: get_arrival_rate_def hist_side)

lemma hyst_main_green: "main_signal (hysteresis_state g a) = GREEN"
  by (simp add: hysteresis_state_def record_arrival_def SignalController_init_def)

lemma hyst_green_time: "current_green_time (hysteresis_state g a) = g"
  by (simp add: hysteresis_state_def)

lemma hyst_last_switch: "last_switch_time (hysteresis_state g a) = - 6"
  by (simp add: hysteresis_state_def record_arrival_def SignalController_init_def
      COOLDOWN_TIME_def)

lemma hyst_switching: "\<not> switching (hysteresis_state g a)"
  by (simp add: hysteresis_state_def record_arrival_def SignalController_init_def)

lemma active_53: "active_pressure (hysteresis_state g 0) ten_queued_cars 100 = 5"
  by (simp add: active_pressure_def hyst_main_green calculate_pressure_def queue_main
      wait_main rate_main)

lemma waiting_53: "waiting_pressure (hysteresis_state g 0) ten_queued_cars 100 = 53 / 10"
  by (simp add: waiting_pressure_def hyst_main_green calculate_pressure_def queue_side
      wait_side rate_side0 Config_defs)

lemma active_56: "active_pressure (hysteresis_state g 94) ten_queued_cars 100 = 5"
  by (simp add: active_pressure_def hyst_main_green calculate_pressure_def queue_main
      wait_main rate_main)

lemma waiting_56: "waiting_pressure (hysteresis_state g 94) ten_queued_cars 100 = 56 / 10"
  by (simp add: waiting_pressure_def hyst_main_green calculate_pressure_def queue_side
      wait_side rate_side94 Config_defs)

lemma make_ai_decision_cases:
  "make_ai_decision s cs t =
     (if real_of_int MAX_GREEN_TIME \<le> current_green_time s \<or>
         (real_of_int MIN_GREEN_TIME \<le> current_green_time s \<and>
          real_of_int COOLDOWN_TIME \<le> t - last_switch_time s \<and>
          active_pressure s cs t + HYSTERESIS_MARGIN < waiting_pressure s cs t)
      then initiate_signal_switch s t else s)"
  by (simp add: make_ai_decision_def active_pressure_def waiting_pressure_def Let_def)

lemma switching_initiate: "switching (initiate_signal_switch s t)"
  by (simp add: initiate_signal_switch_def Let_def)

text \<open>
  C3, as the code has it. With the margin of 0.5 and an active pressure of 5.0: a waiting
  pressure of 5.3 leaves the state as it is (no switch) as long as the current green is
  shorter than the maximum green duration; a waiting pressure of 5.6 initiates a switch once
  the current green has lasted the minimum green duration and the cooldown has elapsed
  since the last switch.
\<close>

theorem hysteresis_margin:
  "active_pressure s cs t = 5 \<Longrightarrow>
     (waiting_pressure s cs t = 53 / 10 \<and> current_green_time s < real_of_int MAX_GREEN_TIME
        \<longrightarrow> make_ai_decision s cs t = s) \<and>
     (waiting_pressure s cs t = 56 / 10 \<and> real_of_int MIN_GREEN_TIME \<le> current_green_time s \<and>
      real_of_int COOLDOWN_TIME \<le> t - last_switch_time s
        \<longrightarrow> make_ai_decision s cs t = initiate_signal_switch s t \<and>
            switching (make_ai_decision s cs t))"
  by (simp add: make_ai_decision_cases HYSTERESIS_MARGIN_def switching_initiate)

text \<open>
  Both cases at time 100 with five cars queued on each road and main GREEN for 20 s: with
  one side arrival in the last 10 s the pressures are 5.0 and 5.3 and nothing changes; with
  two they are 5.0 and 5.6 and the switch starts.
\<close>

theorem hysteresis_margin_witness:
  "active_pressure (hysteresis_state 20 0) ten_queued_cars 100 = 5 \<and>
   waiting_pressure (hysteresis_state 20 0) ten_queued_cars 100 = 53 / 10 \<and>
   current_green_time (hysteresis_state 20 0) < real_of_int MAX_GREEN_TIME \<and>
   make_ai_decision (hysteresis_state 20 0) ten_queued_cars 100 = hysteresis_state 20 0 \<and>
   \<not> switching (make_ai_decision (hysteresis_state 20 0) ten_queued_cars 100) \<and>
   active_pressure (hysteresis_state 20 94) ten_queued_cars 100 = 5 \<and>
   waiting_pressure (hysteresis_state 20 94) ten_queued_cars 100 = 56 / 10 \<and>
   real_of_int MIN_GREEN_TIME \<le> current_green_time (hysteresis_state 20 94) \<and>
   real_of_int COOLDOWN_TIME \<le> 100 - last_switch_time (hysteresis_state 20 94) \<and>
   switching (make_ai_decision (hysteresis_state 20 94) ten_queued_cars 100)"
proof -
  have pre1: "current_green_time (hysteresis_state 20 0) < real_of_int MAX_GREEN_TIME"
    by (simp add: hyst_green_time MAX_GREEN_TIME_def)
  have pre2: "real_of_int MIN_GREEN_TIME \<le> current_green_time (hysteresis_state 20 94)"
    by (simp add: hyst_green_time MIN_GREEN_TIME_def)
  have pre3: "real_of_int COOLDOWN_TIME \<le> 100 - last_switch_time (hysteresis_state 20 94)"
    by (simp add: hyst_last_switch COOLDOWN_TIME_def)
  have keep: "make_ai_decision (hysteresis_state 20 0) ten_queued_cars 100 = hysteresis_state 20 0"
    using hysteresis_margin [OF active_53 [of 20]] waiting_53 [of 20] pre1 by blast
  have go: "switching (make_ai_decision (hysteresis_state 20 94) ten_queued_cars 100)"
    using hysteresis_margin [OF active_56 [of 20]] waiting_56 [of 20] pre2 pre3 by blast
  have still: "\<not> switching (make_ai_decision (hysteresis_state 20 0) ten_queued_cars 100)"
    by (simp add: keep hyst_switching)
  show ?thesis
    using active_53 [of 20] waiting_53 [of 20] active_56 [of 20] waiting_56 [of 20]
      pre1 pre2 pre3 keep go still
    by blast
qed

text \<open>
  The claim as the specification states it, no switch at 5.0 against 5.3 whatever the state,
  fails once the green has lasted the maximum green duration of 50 s: the decision loop then
  switches regardless of the pressures.
\<close>

theorem hysteresis_margin_counterexample:
  "active_pressure (hysteresis_state 50 0) ten_queued_cars 100 = 5 \<and>
   waiting_pressure (hysteresis_state 50 0) ten_queued_cars 100 = 53 / 10 \<and>
   \<not> switching (hysteresis_state 50 0) \<and>
   switching (make_ai_decision (hysteresis_state 50 0) ten_queued_cars 100)"
  by (simp add: active_53 waiting_53 hyst_switching make_ai_decision_cases hyst_green_time
      MAX_GREEN_TIME_def switching_initiate)

subsection \<open>Anti-starvation\<close>

lemma switching_decision:
  "switching s \<Longrightarrow> switching (make_ai_decision s cs t)"
  by (simp add: make_ai_decision_cases switching_initiate)






lemmas controller_eval_defs =
  controller_tick_def SignalController_update_def Let_def update_ai_signals_def
  make_ai_decision_def calculate_pressure_def get_queue_length_def get_arrival_rate_def
  get_average_wait_time_def queue_counts_def wait_counts_def initiate_signal_switch_def
  handle_signal_switching_def queued_car_def Car_init_def Config_defs

lemma starvation_run_1:
  "drive starvation_ticks (Suc 0) (0, SignalController_init ''ai'' 0) =
     (12, \<lparr>controller_type = ''ai'', main_signal = GREEN, side_signal = RED,
        signal_timer = 12, current_green_time = 0, last_ai_update = 12,
        last_switch_time = 12, main_last_green = 12, side_last_green = 0,
        switching = True, switch_stage = 0, switch_start_time = 12,
        arrival_history = \<lambda>r. []\<rparr>)"
  by (simp add: starvation_ticks_def SignalController_init_def controller_eval_defs)

lemma starvation_run_2:
  "drive starvation_ticks (Suc (Suc 0)) (0, SignalController_init ''ai'' 0) =
     (15, \<lparr>controller_type = ''ai'', main_signal = YELLOW, side_signal = RED,
        signal_timer = 15, current_green_time = 3, last_ai_update = 12,
        last_switch_time = 12, main_last_green = 12, side_last_green = 0,
        switching = True, switch_stage = 1, switch_start_time = 15,
        arrival_history = \<lambda>r. []\<rparr>)"
  unfolding drive.simps(2) [of _ "Suc 0"] starvation_run_1
  by (simp add: starvation_ticks_def controller_eval_defs)

lemma starvation_run_3:
  "drive starvation_ticks (Suc (Suc (Suc 0))) (0, SignalController_init ''ai'' 0) =
     (125, \<lparr>controller_type = ''ai'', main_signal = ALL_RED, side_signal = ALL_RED,
        signal_timer = 125, current_green_time = 113, last_ai_update = 12,
        last_switch_time = 12, main_last_green = 12, side_last_green = 0,
        switching = True, switch_stage = 2, switch_start_time = 125,
        arrival_history = \<lambda>r. []\<rparr>)"
  unfolding drive.simps(2) [of _ "Suc (Suc 0)"] starvation_run_2
  by (simp add: starvation_ticks_def controller_eval_defs)

lemma starvation_run_4:
  "drive starvation_ticks 4 (0, SignalController_init ''ai'' 0) =
     (126, \<lparr>controller_type = ''ai'', main_signal = RED, side_signal = GREEN,
        signal_timer = 126, current_green_time = 0, last_ai_update = 12,
        last_switch_time = 12, main_last_green = 12, side_last_green = 0,
        switching = False, switch_stage = 2, switch_start_time = 125,
        arrival_history = \<lambda>r. []\<rparr>)"
proof -
  have "drive starvation_ticks (Suc (Suc (Suc (Suc 0)))) (0, SignalController_init ''ai'' 0) =
     (126, \<lparr>controller_type = ''ai'', main_signal = RED, side_signal = GREEN,
        signal_timer = 126, current_green_time = 0, last_ai_update = 12,
        last_switch_time = 12, main_last_green = 12, side_last_green = 0,
        switching = False, switch_stage = 2, switch_start_time = 125,
        arrival_history = \<lambda>r. []\<rparr>)"
    unfolding drive.simps(2) [of _ "Suc (Suc (Suc 0))"] starvation_run_3
    by (simp add: starvation_ticks_def controller_eval_defs)
  then show ?thesis
    by (simp add: eval_nat_numeral)
qed



section \<open>Properties of the cars\<close>

subsection \<open>Waiting time\<close>

lemma Car_update_unfold:
  "Car_update c cs sc dt =
     (let c1 = c\<lparr>speed := next_speed c cs sc dt,
                 is_stopped := (braking c cs sc \<and> next_speed c cs sc dt \<le> 1 / 1000)\<rparr>;
          c2 = (case direction c of
                  NORTH \<Rightarrow> c1\<lparr>y_pos := y_pos c - travel c cs sc dt\<rparr>
                | SOUTH \<Rightarrow> c1\<lparr>y_pos := y_pos c + travel c cs sc dt\<rparr>
                | EAST \<Rightarrow> c1\<lparr>x_pos := x_pos c + travel c cs sc dt\<rparr>
                | WEST \<Rightarrow> c1\<lparr>x_pos := x_pos c - travel c cs sc dt\<rparr>)
      in if braking c cs sc \<and> next_speed c cs sc dt \<le> 1 / 1000 \<and> \<bar>travel c cs sc dt\<bar> < 1 / 1000
         then c2\<lparr>waiting_time := waiting_time c + dt\<rparr> else c2)"
proof (cases "braking c cs sc")
  case True
  then have b: "((if is_ambulance c then False else should_stop_at_signal c sc) \<or>
      get_car_ahead c cs \<noteq> None) = True"
    by (simp add: braking_def)
  show ?thesis
    unfolding Car_update_def Let_def b travel_def next_speed_def
    using True by (cases "direction c") simp_all
next
  case False
  then have b: "((if is_ambulance c then False else should_stop_at_signal c sc) \<or>
      get_car_ahead c cs \<noteq> None) = False"
    by (simp add: braking_def)
  show ?thesis
    unfolding Car_update_def Let_def b travel_def next_speed_def
    using False by (cases "direction c") simp_all
qed

lemma Car_update_speed: "speed (Car_update c cs sc dt) = next_speed c cs sc dt"
  by (cases "direction c") (simp_all add: Car_update_unfold Let_def)

lemma Car_update_is_stopped:
  "is_stopped (Car_update c cs sc dt) = (braking c cs sc \<and> next_speed c cs sc dt \<le> 1 / 1000)"
  by (cases "direction c") (simp_all add: Car_update_unfold Let_def)

lemma Car_update_x_pos:
  "x_pos (Car_update c cs sc dt) =
     (case direction c of EAST \<Rightarrow> x_pos c + travel c cs sc dt
      | WEST \<Rightarrow> x_pos c - travel c cs sc dt | _ \<Rightarrow> x_pos c)"
  by (cases "direction c") (simp_all add: Car_update_unfold Let_def)

lemma Car_update_y_pos:
  "y_pos (Car_update c cs sc dt) =
     (case direction c of NORTH \<Rightarrow> y_pos c - travel c cs sc dt
      | SOUTH \<Rightarrow> y_pos c + travel c cs sc dt | _ \<Rightarrow> y_pos c)"
  by (cases "direction c") (simp_all add: Car_update_unfold Let_def)

lemma Car_update_waiting_time:
  "waiting_time (Car_update c cs sc dt) =
     (if braking c cs sc \<and> next_speed c cs sc dt \<le> 1 / 1000 \<and> \<bar>travel c cs sc dt\<bar> < 1 / 1000
      then waiting_time c + dt else waiting_time c)"
  by (cases "direction c") (simp_all add: Car_update_unfold Let_def)

lemma Car_update_waiting_cases:
  "waiting_time (Car_update c cs sc dt) = waiting_time c \<or>
   (waiting_time (Car_update c cs sc dt) = waiting_time c + dt \<and>
    is_stopped (Car_update c cs sc dt) \<and>
    \<bar>x_pos (Car_update c cs sc dt) - x_pos c\<bar> < 1 / 1000 \<and>
    \<bar>y_pos (Car_update c cs sc dt) - y_pos c\<bar> < 1 / 1000)"
  by (cases "direction c")
     (simp_all add: Car_update_waiting_time Car_update_is_stopped Car_update_x_pos Car_update_y_pos)

lemma Car_update_waiting_mono:
  "0 \<le> dt \<Longrightarrow> waiting_time c \<le> waiting_time (Car_update c cs sc dt)"
  using Car_update_waiting_cases [of c cs sc dt] by auto

lemma Car_updates_waiting_mono:
  "list_all (\<lambda>tk. 0 \<le> snd (snd tk)) ticks \<Longrightarrow> waiting_time c \<le> waiting_time (Car_updates c ticks)"
proof (induction ticks arbitrary: c)
  case Nil
  then show ?case by simp
next
  case (Cons tk ticks)
  obtain cs sc dt where tk: "tk = (cs, sc, dt)"
    by (cases tk) auto
  from Cons.prems tk have "0 \<le> dt" by simp
  then have "waiting_time c \<le> waiting_time (Car_update c cs sc dt)"
    by (rule Car_update_waiting_mono)
  also have "\<dots> \<le> waiting_time (Car_updates (Car_update c cs sc dt) ticks)"
    using Cons.prems by (intro Cons.IH) simp
  finally show ?case
    by (simp add: tk)
qed

text \<open>
  C8, as the code has it. Through any sequence of update ticks with \<open>dt_sim \<ge> 0\<close> the waiting
  time of a car never decreases. In a single tick, from any state of the car, the waiting
  time either stays as it is or grows by \<open>dt_sim\<close>, and it changes only when the tick leaves
  \<open>is_stopped\<close> true and has moved the car by less than 0.001 on each axis.
\<close>

theorem waiting_time_monotone:
  "(list_all (\<lambda>tk. 0 \<le> snd (snd tk)) ticks \<longrightarrow>
      waiting_time c \<le> waiting_time (Car_updates c ticks)) \<and>
   (waiting_time (Car_update c cs sc dt) \<noteq> waiting_time c \<longrightarrow>
      waiting_time (Car_update c cs sc dt) = waiting_time c + dt \<and>
      is_stopped (Car_update c cs sc dt) \<and>
      \<bar>x_pos (Car_update c cs sc dt) - x_pos c\<bar> < 1 / 1000 \<and>
      \<bar>y_pos (Car_update c cs sc dt) - y_pos c\<bar> < 1 / 1000)"
  using Car_updates_waiting_mono [of ticks c] Car_update_waiting_cases [of c cs sc dt]
  by blast

lemma queued_car_tick:
  "Car_update (queued_car 0 NORTH) [] red_main (1 / 60) = (queued_car 0 NORTH)\<lparr>waiting_time := 1 / 60\<rparr>"
  by (simp add: Car_update_def queued_car_def Car_init_def red_main_def SignalController_init_def
      should_stop_at_signal_def get_signal_state_def Let_def Config_defs)

lemma queued_car_tick_2:
  "Car_update ((queued_car 0 NORTH)\<lparr>waiting_time := 1 / 60\<rparr>) [] red_main (1 / 60) =
     (queued_car 0 NORTH)\<lparr>waiting_time := 1 / 30\<rparr>"
  by (simp add: Car_update_def queued_car_def Car_init_def red_main_def SignalController_init_def
      should_stop_at_signal_def get_signal_state_def Let_def Config_defs)

text \<open>
  A car standing at the red main signal for two ticks of 1/60 s: its waiting time grows from
  0 to 1/30, in the first tick by 1/60 and without moving the car.
\<close>

theorem waiting_time_monotone_witness:
  "list_all (\<lambda>tk. 0 \<le> snd (snd tk)) [([], red_main, 1 / 60), ([], red_main, 1 / 60 :: real)] \<and>
   waiting_time (queued_car 0 NORTH)
     \<le> waiting_time (Car_updates (queued_car 0 NORTH) [([], red_main, 1 / 60), ([], red_main, 1 / 60)]) \<and>
   waiting_time (Car_updates (queued_car 0 NORTH) [([], red_main, 1 / 60), ([], red_main, 1 / 60)]) = 1 / 30 \<and>
   waiting_time (Car_update (queued_car 0 NORTH) [] red_main (1 / 60)) \<noteq> waiting_time (queued_car 0 NORTH) \<and>
   waiting_time (Car_update (queued_car 0 NORTH) [] red_main (1 / 60)) = waiting_time (queued_car 0 NORTH) + 1 / 60 \<and>
   is_stopped (Car_update (queued_car 0 NORTH) [] red_main (1 / 60)) \<and>
   \<bar>y_pos (Car_update (queued_car 0 NORTH) [] red_main (1 / 60)) - y_pos (queued_car 0 NORTH)\<bar> < 1 / 1000"
proof -
  let ?ticks = "[([], red_main, 1 / 60), ([], red_main, 1 / 60 :: real)]"
  have h1: "list_all (\<lambda>tk. 0 \<le> snd (snd tk)) ?ticks"
    by simp
  have h2: "waiting_time (Car_update (queued_car 0 NORTH) [] red_main (1 / 60)) \<noteq> waiting_time (queued_car 0 NORTH)"
    by (simp add: queued_car_tick) (simp add: queued_car_def Car_init_def)
  have v: "waiting_time (Car_updates (queued_car 0 NORTH) ?ticks) = 1 / 30"
    by (simp add: queued_car_tick queued_car_tick_2)
  from waiting_time_monotone [of ?ticks "queued_car 0 NORTH" "[]" red_main "1 / 60"] h1 h2
  have "waiting_time (queued_car 0 NORTH) \<le> waiting_time (Car_updates (queued_car 0 NORTH) ?ticks) \<and>
      waiting_time (Car_update (queued_car 0 NORTH) [] red_main (1 / 60)) = waiting_time (queued_car 0 NORTH) + 1 / 60 \<and>
      is_stopped (Car_update (queued_car 0 NORTH) [] red_main (1 / 60)) \<and>
      \<bar>y_pos (Car_update (queued_car 0 NORTH) [] red_main (1 / 60)) - y_pos (queued_car 0 NORTH)\<bar> < 1 / 1000"
    by blast
  with h1 h2 v show ?thesis by blast
qed

lemma creeping_car_tick:
  "Car_update creeping_car [] red_main (1 / 60) =
     creeping_car\<lparr>speed := 1 / 2000, is_stopped := True, y_pos := 1039999 / 2000,
       waiting_time := 1 / 60\<rparr>"
  by (simp add: Car_update_def creeping_car_def Car_init_def red_main_def SignalController_init_def
      should_stop_at_signal_def get_signal_state_def Let_def Config_defs)

text \<open>
  The claim as the specification states it, the waiting time grows only when the position is
  unchanged within the tick, fails for a car that brakes to a speed of at most 0.001: the car
  that reaches the red main signal with speed 0.2005 brakes to 0.0005 in a tick of 1/60 s,
  is marked stopped, moves from 520 to 519.9995 and has its waiting time raised by 1/60.
\<close>

theorem waiting_time_counterexample:
  "waiting_time (Car_update creeping_car [] red_main (1 / 60)) = waiting_time creeping_car + 1 / 60 \<and>
   waiting_time (Car_update creeping_car [] red_main (1 / 60)) \<noteq> waiting_time creeping_car \<and>
   is_stopped (Car_update creeping_car [] red_main (1 / 60)) \<and>
   y_pos creeping_car = 520 \<and>
   y_pos (Car_update creeping_car [] red_main (1 / 60)) = 1039999 / 2000 \<and>
   y_pos (Car_update creeping_car [] red_main (1 / 60)) \<noteq> y_pos creeping_car"
  by (simp add: creeping_car_tick) (simp add: creeping_car_def Car_init_def)

subsection \<open>Emergency vehicles\<close>

lemma braking_ambulance: "is_ambulance c \<Longrightarrow> braking c cs sc = (get_car_ahead c cs \<noteq> None)"
  by (simp add: braking_def)

lemma Car_update_ambulance_signal:
  "is_ambulance c \<Longrightarrow> Car_update c cs sc dt = Car_update c cs sc' dt"
  by (simp add: Car_update_def)

text \<open>
  C9. For an emergency vehicle the tick does not depend on the signals at all: \<open>Car.update\<close>
  gives the same car for any two states of the signal controller, inside the stop-line window
  or not. When no car is ahead within the safe-following distance the vehicle is not marked
  stopped and gets the accelerated speed, capped at its maximum speed, which is no lower
  than its speed before when that was within the maximum and \<open>dt_sim \<ge> 0\<close>. When a car is
  ahead it brakes as every car does.
\<close>

theorem emergency_preemption:
  "is_ambulance c \<Longrightarrow>
     Car_update c cs sc dt = Car_update c cs sc' dt \<and>
     (get_car_ahead c cs = None \<longrightarrow>
        speed (Car_update c cs sc dt) =
          min (max_speed c) (speed c + CAR_ACCELERATION * (dt * real_of_int FPS)) \<and>
        \<not> is_stopped (Car_update c cs sc dt) \<and>
        (0 \<le> dt \<and> speed c \<le> max_speed c \<longrightarrow> speed c \<le> speed (Car_update c cs sc dt))) \<and>
     (get_car_ahead c cs \<noteq> None \<longrightarrow>
        speed (Car_update c cs sc dt) =
          max 0 (speed c - CAR_ACCELERATION * 2 * (dt * real_of_int FPS)))"
proof -
  assume amb: "is_ambulance c"
  have a: "Car_update c cs sc dt = Car_update c cs sc' dt"
    using amb by (rule Car_update_ambulance_signal)
  have b: "get_car_ahead c cs = None \<longrightarrow>
        speed (Car_update c cs sc dt) =
          min (max_speed c) (speed c + CAR_ACCELERATION * (dt * real_of_int FPS)) \<and>
        \<not> is_stopped (Car_update c cs sc dt) \<and>
        (0 \<le> dt \<and> speed c \<le> max_speed c \<longrightarrow> speed c \<le> speed (Car_update c cs sc dt))"
    using amb
    by (simp add: Car_update_speed Car_update_is_stopped next_speed_def braking_ambulance
        CAR_ACCELERATION_def FPS_def)
  have c: "get_car_ahead c cs \<noteq> None \<longrightarrow>
        speed (Car_update c cs sc dt) =
          max 0 (speed c - CAR_ACCELERATION * 2 * (dt * real_of_int FPS))"
    using amb by (simp add: Car_update_speed next_speed_def braking_ambulance)
  from a b c show ?thesis by blast
qed

lemma ambulance_facts:
  "is_ambulance ambulance_at_red" "speed ambulance_at_red = 2" "max_speed ambulance_at_red = 4"
  "get_car_ahead ambulance_at_red [] = None"
  "get_car_ahead ambulance_at_red [car_in_front] \<noteq> None"
  "should_stop_at_signal ambulance_at_red red_main"
  by (simp_all add: ambulance_at_red_def car_in_front_def Car_init_def is_ahead_def
      should_stop_at_signal_def get_signal_state_def red_main_def SignalController_init_def
      Config_defs)

lemma car_at_red_speed: "speed (Car_update car_at_red [] red_main (1 / 60)) = 18 / 10"
  by (simp add: Car_update_speed next_speed_def braking_def car_at_red_def Car_init_def
      should_stop_at_signal_def get_signal_state_def red_main_def SignalController_init_def
      Config_defs)

text \<open>
  An ambulance with speed 2 inside the stop-line window of the red main signal: in a tick of
  1/60 s with a free road it accelerates to 2.1, where the ordinary car at the same place
  brakes to 1.8; with a car 20 px ahead it brakes to 1.8 as well.
\<close>

theorem emergency_preemption_witness:
  "is_ambulance ambulance_at_red \<and>
   should_stop_at_signal ambulance_at_red red_main \<and>
   get_car_ahead ambulance_at_red [] = None \<and>
   speed ambulance_at_red = 2 \<and>
   speed (Car_update ambulance_at_red [] red_main (1 / 60)) = 21 / 10 \<and>
   \<not> is_stopped (Car_update ambulance_at_red [] red_main (1 / 60)) \<and>
   speed (Car_update car_at_red [] red_main (1 / 60)) = 18 / 10 \<and>
   get_car_ahead ambulance_at_red [car_in_front] \<noteq> None \<and>
   speed (Car_update ambulance_at_red [car_in_front] red_main (1 / 60)) = 18 / 10"
proof -
  note free = emergency_preemption [OF ambulance_facts(1), of "[]" red_main "1 / 60" red_main]
  note blocked = emergency_preemption [OF ambulance_facts(1), of "[car_in_front]" red_main "1 / 60" red_main]
  have a: "speed (Car_update ambulance_at_red [] red_main (1 / 60)) = 21 / 10"
    using free ambulance_facts(4) by (simp add: ambulance_facts(2,3) Config_defs)
  have b: "\<not> is_stopped (Car_update ambulance_at_red [] red_main (1 / 60))"
    using free ambulance_facts(4) by blast
  have c: "speed (Car_update ambulance_at_red [car_in_front] red_main (1 / 60)) = 18 / 10"
    using blocked ambulance_facts(5) by (simp add: ambulance_facts(2,3) Config_defs)
  from a b c ambulance_facts car_at_red_speed show ?thesis by blast
qed

section \<open>Properties of the metrics\<close>

lemma record_exits_count:
  "total_cars_exited (record_exits m exits) = total_cars_exited m + length exits"
  by (induction exits arbitrary: m) (auto simp: record_car_exit_def)

lemma record_exits_wait:
  "total_wait_time (record_exits m exits) =
     total_wait_time m + sum_list (map (\<lambda>e. waiting_time (fst e)) exits)"
  by (induction exits arbitrary: m) (auto simp: record_car_exit_def)

text \<open>
  C10. After a reset and the recorded exits of any list of cars, at any exit times, the
  average wait is the sum of the cars' waiting times divided by their number, and 0 when no
  car has exited.
\<close>

theorem average_wait_of_exits:
  "Metrics_get_average_wait_time (record_exits (reset t0) exits) =
     (if exits = [] then 0
      else sum_list (map (\<lambda>e. waiting_time (fst e)) exits) / real (length exits))"
  by (simp add: Metrics_get_average_wait_time_def record_exits_count record_exits_wait reset_def)

text \<open>Three exits with waits 3, 4.5 and 0 average to 2.5; no exit gives 0.\<close>

theorem average_wait_of_exits_witness:
  "Metrics_get_average_wait_time (record_exits (reset 0)
     [((queued_car 0 NORTH)\<lparr>waiting_time := 3\<rparr>, 10),
      ((queued_car 1 EAST)\<lparr>waiting_time := 45 / 10\<rparr>, 11),
      (queued_car 2 SOUTH, 12)]) = 25 / 10 \<and>
   Metrics_get_average_wait_time (record_exits (reset 0) []) = 0"
  using average_wait_of_exits [of 0 "[((queued_car 0 NORTH)\<lparr>waiting_time := 3\<rparr>, 10),
      ((queued_car 1 EAST)\<lparr>waiting_time := 45 / 10\<rparr>, 11), (queued_car 2 SOUTH, 12)]"]
    average_wait_of_exits [of 0 "[]"]
  by (simp add: queued_car_def Car_init_def)

subsection \<open>The switching sequence\<close>

lemmas tick_defs = controller_tick_def SignalController_update_def update_ai_signals_def
  handle_signal_switching_def record_arrival_def Let_def get_signal_state_def other_road_def
  last_green_def signals_def FIXED_YELLOW_TIME_def FIXED_ALL_RED_TIME_def

lemma yellow_step_stay:
  "yellow_phase r t0 (snd st) \<Longrightarrow> fst st + tick_dt tk - t0 < 3 \<Longrightarrow>
   yellow_phase r t0 (snd (controller_tick st tk)) \<and>
   get_signal_state (snd (controller_tick st tk)) r = YELLOW"
  by (cases r) (auto simp add: yellow_phase_def tick_defs)

lemma yellow_step_leave:
  "yellow_phase r t0 (snd st) \<Longrightarrow> 3 \<le> fst st + tick_dt tk - t0 \<Longrightarrow>
   all_red_phase r (fst st + tick_dt tk) (snd (controller_tick st tk)) \<and>
   get_signal_state (snd (controller_tick st tk)) r = YELLOW \<and>
   get_signal_state (snd (controller_tick st tk)) (other_road r) = RED"
  by (cases r) (auto simp add: yellow_phase_def all_red_phase_def tick_defs)

lemma all_red_step_stay:
  "all_red_phase r t1 (snd st) \<Longrightarrow> fst st + tick_dt tk - t1 < 2 \<Longrightarrow>
   all_red_phase r t1 (snd (controller_tick st tk)) \<and>
   signals (snd (controller_tick st tk)) = (ALL_RED, ALL_RED)"
  by (cases r) (auto simp add: all_red_phase_def tick_defs)

lemma all_red_step_leave:
  "all_red_phase r t1 (snd st) \<Longrightarrow> 2 \<le> fst st + tick_dt tk - t1 \<Longrightarrow>
   granting_phase r (snd (controller_tick st tk))"
  by (cases r) (auto simp add: all_red_phase_def granting_phase_def tick_defs)

lemma granting_step:
  "granting_phase r (snd st) \<Longrightarrow> granted r (snd (controller_tick st tk))"
  by (cases r) (auto simp add: granting_phase_def granted_def tick_defs)

lemma fst_tick: "fst (controller_tick st tk) = fst st + tick_dt tk"
  by (simp add: controller_tick_def Let_def)

lemma make_ai_decision_fields:
  "make_ai_decision s cs t = s \<or>
   (make_ai_decision s cs t = initiate_signal_switch s t \<and> real_of_int MIN_GREEN_TIME \<le> current_green_time s)"
  by (simp add: make_ai_decision_cases Config_defs)

lemma initiate_fields:
  "initiate_signal_switch s t =
     s\<lparr>switching := True, switch_stage := 0, switch_start_time := t, last_switch_time := t,
       main_last_green := (if main_signal s = GREEN then t else main_last_green s),
       side_last_green := (if main_signal s \<noteq> GREEN \<and> side_signal s = GREEN then t else side_last_green s),
       current_green_time := 0\<rparr>"
  by (simp add: initiate_signal_switch_def Let_def)

lemma update_ai_idle:
  assumes "\<not> switching s"
  shows "\<exists>u. update_ai_signals s cs t = s\<lparr>last_ai_update := u\<rparr> \<or>
             (update_ai_signals s cs t = (initiate_signal_switch s t)\<lparr>last_ai_update := u\<rparr> \<and>
              real_of_int MIN_GREEN_TIME \<le> current_green_time s)"
proof -
  define s1 where "s1 = (if t - last_ai_update s \<ge> AI_UPDATE_INTERVAL
                   then (make_ai_decision s cs t)\<lparr>last_ai_update := t\<rparr> else s)"
  have res: "update_ai_signals s cs t =
      (if real_of_int ANTI_STARVATION_TIME < t - waiting_last_green s1 \<and>
          real_of_int MIN_GREEN_TIME < current_green_time s1
       then initiate_signal_switch s1 t else s1)"
    using assms by (simp add: update_ai_signals_def Let_def s1_def waiting_last_green_def)
  consider (keep) u where "s1 = s\<lparr>last_ai_update := u\<rparr>"
    | (go) "s1 = (initiate_signal_switch s t)\<lparr>last_ai_update := t\<rparr>"
           "real_of_int MIN_GREEN_TIME \<le> current_green_time s"
  proof (cases "AI_UPDATE_INTERVAL \<le> t - last_ai_update s")
    case False
    then have "s1 = s\<lparr>last_ai_update := last_ai_update s\<rparr>" by (simp add: s1_def)
    then show ?thesis by (rule keep)
  next
    case True
    then have s1: "s1 = (make_ai_decision s cs t)\<lparr>last_ai_update := t\<rparr>" by (simp add: s1_def)
    from make_ai_decision_fields [of s cs t] show ?thesis
    proof
      assume "make_ai_decision s cs t = s"
      with s1 show ?thesis by (intro keep [of t]) simp
    next
      assume "make_ai_decision s cs t = initiate_signal_switch s t \<and>
        real_of_int MIN_GREEN_TIME \<le> current_green_time s"
      with s1 show ?thesis by (intro go) simp_all
    qed
  qed
  then show ?thesis
  proof cases
    case (keep u)
    show ?thesis
    proof (cases "real_of_int ANTI_STARVATION_TIME < t - waiting_last_green s1 \<and>
          real_of_int MIN_GREEN_TIME < current_green_time s1")
      case True
      then have "update_ai_signals s cs t = (initiate_signal_switch s t)\<lparr>last_ai_update := u\<rparr>"
        by (simp add: res keep initiate_fields)
      moreover from True have "real_of_int MIN_GREEN_TIME \<le> current_green_time s"
        by (simp add: keep)
      ultimately show ?thesis by blast
    next
      case False
      then have "update_ai_signals s cs t = s\<lparr>last_ai_update := u\<rparr>"
        by (simp add: res keep del: de_Morgan_conj)
      then show ?thesis by blast
    qed
  next
    case go
    have "current_green_time s1 = 0"
      by (simp add: go(1) initiate_fields)
    then have "update_ai_signals s cs t = s1"
      by (simp add: res MIN_GREEN_TIME_def)
    with go show ?thesis by blast
  qed
qed

lemma arrived_eq:
  "arrived st tk = (snd st)\<lparr>arrival_history := arrival_history (arrived st tk),
     signal_timer := signal_timer (snd st) + tick_dt tk,
     current_green_time := current_green_time (snd st) + tick_dt tk\<rparr>"
  by (simp add: arrived_def record_arrival_def Let_def)

lemma tick_adaptive:
  "controller_type (snd st) \<noteq> ''fixed'' \<Longrightarrow>
   controller_tick st tk =
     (fst st + tick_dt tk, update_ai_signals (arrived st tk) (tick_cars tk) (fst st + tick_dt tk))"
  by (simp add: controller_tick_def SignalController_update_def arrived_def record_arrival_def Let_def)

lemma arrived_fields:
  "controller_type (arrived st tk) = controller_type (snd st)"
  "main_signal (arrived st tk) = main_signal (snd st)"
  "side_signal (arrived st tk) = side_signal (snd st)"
  "switching (arrived st tk) = switching (snd st)"
  "switch_stage (arrived st tk) = switch_stage (snd st)"
  "switch_start_time (arrived st tk) = switch_start_time (snd st)"
  "main_last_green (arrived st tk) = main_last_green (snd st)"
  "side_last_green (arrived st tk) = side_last_green (snd st)"
  "current_green_time (arrived st tk) = current_green_time (snd st) + tick_dt tk"
  by (simp_all add: arrived_def record_arrival_def Let_def)

lemma handle_inv:
  assumes "switching s" "0 \<le> current_green_time s"
    "main_last_green s + current_green_time s \<le> T" "side_last_green s + current_green_time s \<le> T"
  shows "0 \<le> current_green_time (handle_signal_switching s T) \<and>
     main_last_green (handle_signal_switching s T) + current_green_time (handle_signal_switching s T) \<le> T \<and>
     side_last_green (handle_signal_switching s T) + current_green_time (handle_signal_switching s T) \<le> T \<and>
     (switching (handle_signal_switching s T) \<or> signals (handle_signal_switching s T) = (GREEN, RED) \<or>
      signals (handle_signal_switching s T) = (RED, GREEN)) \<and>
     controller_type (handle_signal_switching s T) = controller_type s"
  using assms by (auto simp add: handle_signal_switching_def Let_def signals_def)

lemma inv_init: "ctype \<noteq> ''fixed'' \<Longrightarrow> adaptive_inv (S, SignalController_init ctype S)"
  by (simp add: adaptive_inv_def SignalController_init_def signals_def)

lemma inv_tick:
  assumes inv: "adaptive_inv st" and dt: "0 \<le> tick_dt tk"
  shows "adaptive_inv (controller_tick st tk)"
proof -
  from inv have ad: "controller_type (snd st) \<noteq> ''fixed''"
    by (simp add: adaptive_inv_def)
  let ?T = "fst st + tick_dt tk"
  let ?s2 = "arrived st tk"
  have tick: "controller_tick st tk = (?T, update_ai_signals ?s2 (tick_cars tk) ?T)"
    using ad by (rule tick_adaptive)
  have pre: "0 \<le> current_green_time ?s2" "main_last_green ?s2 + current_green_time ?s2 \<le> ?T"
    "side_last_green ?s2 + current_green_time ?s2 \<le> ?T"
    using inv dt by (simp_all add: adaptive_inv_def arrived_fields)
  show ?thesis
  proof (cases "switching (snd st)")
    case True
    then have sw: "switching ?s2" by (simp add: arrived_fields)
    then have "update_ai_signals ?s2 (tick_cars tk) ?T = handle_signal_switching ?s2 ?T"
      by (simp add: update_ai_signals_def)
    with handle_inv [OF sw pre] ad show ?thesis
      by (simp add: tick adaptive_inv_def arrived_fields)
  next
    case False
    then have idle: "\<not> switching ?s2" by (simp add: arrived_fields)
    from False inv have sig: "signals ?s2 = (GREEN, RED) \<or> signals ?s2 = (RED, GREEN)"
      by (simp add: adaptive_inv_def signals_def arrived_fields)
    from update_ai_idle [OF idle, of "tick_cars tk" ?T] obtain u where
      "update_ai_signals ?s2 (tick_cars tk) ?T = ?s2\<lparr>last_ai_update := u\<rparr> \<or>
       (update_ai_signals ?s2 (tick_cars tk) ?T = (initiate_signal_switch ?s2 ?T)\<lparr>last_ai_update := u\<rparr> \<and>
        real_of_int MIN_GREEN_TIME \<le> current_green_time ?s2)"
      by blast
    then show ?thesis
    proof
      assume "update_ai_signals ?s2 (tick_cars tk) ?T = ?s2\<lparr>last_ai_update := u\<rparr>"
      then show ?thesis
        using pre sig ad by (simp add: tick adaptive_inv_def signals_def arrived_fields)
    next
      assume "update_ai_signals ?s2 (tick_cars tk) ?T = (initiate_signal_switch ?s2 ?T)\<lparr>last_ai_update := u\<rparr> \<and>
        real_of_int MIN_GREEN_TIME \<le> current_green_time ?s2"
      then show ?thesis
        using pre ad by (simp add: tick adaptive_inv_def initiate_fields arrived_fields)
    qed
  qed
qed

lemma initiation:
  assumes inv: "adaptive_inv st" and dt: "0 \<le> tick_dt tk"
    and idle: "\<not> switching (snd st)"
    and sw: "switching (snd (controller_tick st tk))"
    and green: "get_signal_state (snd st) r = GREEN"
  shows "yellow_phase r (fst st + tick_dt tk) (snd (controller_tick st tk)) \<and>
         get_signal_state (snd (controller_tick st tk)) r = GREEN"
proof -
  from inv have ad: "controller_type (snd st) \<noteq> ''fixed''"
    by (simp add: adaptive_inv_def)
  let ?T = "fst st + tick_dt tk"
  let ?s2 = "arrived st tk"
  have tick: "controller_tick st tk = (?T, update_ai_signals ?s2 (tick_cars tk) ?T)"
    using ad by (rule tick_adaptive)
  have pre: "main_last_green ?s2 + current_green_time ?s2 \<le> ?T"
    "side_last_green ?s2 + current_green_time ?s2 \<le> ?T"
    using inv dt by (simp_all add: adaptive_inv_def arrived_fields)
  have idle2: "\<not> switching ?s2" using idle by (simp add: arrived_fields)
  from idle inv have sig: "signals (snd st) = (GREEN, RED) \<or> signals (snd st) = (RED, GREEN)"
    by (simp add: adaptive_inv_def)
  from update_ai_idle [OF idle2, of "tick_cars tk" ?T] obtain u where
    u: "update_ai_signals ?s2 (tick_cars tk) ?T = ?s2\<lparr>last_ai_update := u\<rparr> \<or>
       (update_ai_signals ?s2 (tick_cars tk) ?T = (initiate_signal_switch ?s2 ?T)\<lparr>last_ai_update := u\<rparr> \<and>
        real_of_int MIN_GREEN_TIME \<le> current_green_time ?s2)"
    by blast
  from sw idle2 have "update_ai_signals ?s2 (tick_cars tk) ?T \<noteq> ?s2\<lparr>last_ai_update := u\<rparr>"
    by (auto simp add: tick)
  with u have res: "update_ai_signals ?s2 (tick_cars tk) ?T = (initiate_signal_switch ?s2 ?T)\<lparr>last_ai_update := u\<rparr>"
    and served: "real_of_int MIN_GREEN_TIME \<le> current_green_time ?s2"
    by blast+
  from served pre have older: "main_last_green (snd st) < ?T" "side_last_green (snd st) < ?T"
    by (simp_all add: MIN_GREEN_TIME_def arrived_fields)
  show ?thesis
    using sig green older ad
    by (cases r)
       (auto simp add: tick res yellow_phase_def initiate_fields arrived_fields signals_def
          get_signal_state_def other_road_def last_green_def)
qed

lemma fsm_tick_cars:
  assumes "controller_type (snd st) \<noteq> ''fixed''" "switching (snd st)" "tick_dt tk' = tick_dt tk"
  shows "fsm_view (snd (controller_tick st tk')) = fsm_view (snd (controller_tick st tk))"
  using assms
  by (simp add: tick_adaptive update_ai_signals_def arrived_fields handle_signal_switching_def
      Let_def fsm_view_def)

lemma drive_time: "fst (drive f (Suc k) st0) = fst (drive f k st0) + tick_dt (f k)"
  by (simp add: fst_tick)

lemma arch_steps:
  fixes x d :: real
  assumes "0 < d"
  shows "\<exists>n. x \<le> real n * d"
proof -
  obtain n where "x / d \<le> real n"
    using real_arch_simple by blast
  with assms have "x \<le> real n * d"
    by (simp add: field_simps)
  then show ?thesis ..
qed

lemma yellow_eventually:
  assumes pos: "0 < d" and step: "\<forall>i. d \<le> tick_dt (f i)"
  shows "yellow_phase r t0 (snd (drive f j st0)) \<Longrightarrow> t0 + 3 - fst (drive f j st0) \<le> real n * d \<Longrightarrow>
     \<exists>a>j. all_red_phase r (fst (drive f a st0)) (snd (drive f a st0)) \<and>
       (\<forall>k. j \<le> k \<and> k < a \<longrightarrow> yellow_phase r t0 (snd (drive f k st0))) \<and>
       (\<forall>k. j < k \<and> k \<le> a \<longrightarrow>
          get_signal_state (snd (drive f k st0)) r = YELLOW \<and>
          get_signal_state (snd (drive f k st0)) (other_road r) = RED)"
proof (induction n arbitrary: j)
  case 0
  let ?st = "drive f j st0"
  from step have "d \<le> tick_dt (f j)" by blast
  with pos "0.prems"(2) have "3 \<le> fst ?st + tick_dt (f j) - t0" by simp
  from yellow_step_leave [OF "0.prems"(1) this]
  have "all_red_phase r (fst (drive f (Suc j) st0)) (snd (drive f (Suc j) st0)) \<and>
      get_signal_state (snd (drive f (Suc j) st0)) r = YELLOW \<and>
      get_signal_state (snd (drive f (Suc j) st0)) (other_road r) = RED"
    by (simp add: fst_tick)
  moreover have "\<And>k. j \<le> k \<and> k < Suc j \<Longrightarrow> k = j" by simp
  moreover have "\<And>k. j < k \<and> k \<le> Suc j \<Longrightarrow> k = Suc j" by simp
  ultimately show ?case
    using "0.prems"(1) by (intro exI [of _ "Suc j"]) (metis lessI)
next
  case (Suc n)
  let ?st = "drive f j st0"
  show ?case
  proof (cases "3 \<le> fst ?st + tick_dt (f j) - t0")
    case True
    from yellow_step_leave [OF Suc.prems(1) True]
    have "all_red_phase r (fst (drive f (Suc j) st0)) (snd (drive f (Suc j) st0)) \<and>
        get_signal_state (snd (drive f (Suc j) st0)) r = YELLOW \<and>
        get_signal_state (snd (drive f (Suc j) st0)) (other_road r) = RED"
      by (simp add: fst_tick)
    moreover have "\<And>k. j \<le> k \<and> k < Suc j \<Longrightarrow> k = j" by simp
    moreover have "\<And>k. j < k \<and> k \<le> Suc j \<Longrightarrow> k = Suc j" by simp
    ultimately show ?thesis
      using Suc.prems(1) by (intro exI [of _ "Suc j"]) (metis lessI)
  next
    case False
    then have lt: "fst ?st + tick_dt (f j) - t0 < 3" by simp
    from yellow_step_stay [OF Suc.prems(1) lt]
    have y1: "yellow_phase r t0 (snd (drive f (Suc j) st0))"
      and y2: "get_signal_state (snd (drive f (Suc j) st0)) r = YELLOW"
      by simp_all
    from y1 have y3: "get_signal_state (snd (drive f (Suc j) st0)) (other_road r) = RED"
      by (simp add: yellow_phase_def)
    from step have "d \<le> tick_dt (f j)" by blast
    with Suc.prems(2) have "t0 + 3 - fst (drive f (Suc j) st0) \<le> real n * d"
      by (simp add: fst_tick algebra_simps)
    from Suc.IH [OF y1 this] obtain a where a: "Suc j < a"
      "all_red_phase r (fst (drive f a st0)) (snd (drive f a st0))"
      "\<forall>k. Suc j \<le> k \<and> k < a \<longrightarrow> yellow_phase r t0 (snd (drive f k st0))"
      "\<forall>k. Suc j < k \<and> k \<le> a \<longrightarrow>
          get_signal_state (snd (drive f k st0)) r = YELLOW \<and>
          get_signal_state (snd (drive f k st0)) (other_road r) = RED"
      by blast
    have "\<forall>k. j \<le> k \<and> k < a \<longrightarrow> yellow_phase r t0 (snd (drive f k st0))"
    proof (intro allI impI)
      fix k assume "j \<le> k \<and> k < a"
      then have "k = j \<or> (Suc j \<le> k \<and> k < a)" by auto
      then show "yellow_phase r t0 (snd (drive f k st0))"
        using Suc.prems(1) a(3) by blast
    qed
    moreover have "\<forall>k. j < k \<and> k \<le> a \<longrightarrow>
          get_signal_state (snd (drive f k st0)) r = YELLOW \<and>
          get_signal_state (snd (drive f k st0)) (other_road r) = RED"
    proof (intro allI impI)
      fix k assume "j < k \<and> k \<le> a"
      then have "k = Suc j \<or> (Suc j < k \<and> k \<le> a)" by auto
      then show "get_signal_state (snd (drive f k st0)) r = YELLOW \<and>
          get_signal_state (snd (drive f k st0)) (other_road r) = RED"
        using y2 y3 a(4) by blast
    qed
    moreover from a(1) have "j < a" by simp
    ultimately show ?thesis
      using a(2) by blast
  qed
qed

lemma all_red_eventually:
  assumes pos: "0 < d" and step: "\<forall>i. d \<le> tick_dt (f i)"
  shows "all_red_phase r t1 (snd (drive f j st0)) \<Longrightarrow> t1 + 2 - fst (drive f j st0) \<le> real n * d \<Longrightarrow>
     \<exists>b>j. granting_phase r (snd (drive f b st0)) \<and>
       (\<forall>k. j \<le> k \<and> k < b \<longrightarrow> all_red_phase r t1 (snd (drive f k st0))) \<and>
       (\<forall>k. j < k \<and> k \<le> b \<longrightarrow> signals (snd (drive f k st0)) = (ALL_RED, ALL_RED))"
proof (induction n arbitrary: j)
  case 0
  let ?st = "drive f j st0"
  from step have "d \<le> tick_dt (f j)" by blast
  with pos "0.prems"(2) have "2 \<le> fst ?st + tick_dt (f j) - t1" by simp
  from all_red_step_leave [OF "0.prems"(1) this]
  have g: "granting_phase r (snd (drive f (Suc j) st0))"
    by simp
  then have "signals (snd (drive f (Suc j) st0)) = (ALL_RED, ALL_RED)"
    by (simp add: granting_phase_def)
  moreover have "\<And>k. j \<le> k \<and> k < Suc j \<Longrightarrow> k = j" by simp
  moreover have "\<And>k. j < k \<and> k \<le> Suc j \<Longrightarrow> k = Suc j" by simp
  ultimately show ?case
    using "0.prems"(1) g by (intro exI [of _ "Suc j"]) (metis lessI)
next
  case (Suc n)
  let ?st = "drive f j st0"
  show ?case
  proof (cases "2 \<le> fst ?st + tick_dt (f j) - t1")
    case True
    from all_red_step_leave [OF Suc.prems(1) True]
    have g: "granting_phase r (snd (drive f (Suc j) st0))"
      by simp
    then have "signals (snd (drive f (Suc j) st0)) = (ALL_RED, ALL_RED)"
      by (simp add: granting_phase_def)
    moreover have "\<And>k. j \<le> k \<and> k < Suc j \<Longrightarrow> k = j" by simp
    moreover have "\<And>k. j < k \<and> k \<le> Suc j \<Longrightarrow> k = Suc j" by simp
    ultimately show ?thesis
      using Suc.prems(1) g by (intro exI [of _ "Suc j"]) (metis lessI)
  next
    case False
    then have lt: "fst ?st + tick_dt (f j) - t1 < 2" by simp
    from all_red_step_stay [OF Suc.prems(1) lt]
    have y1: "all_red_phase r t1 (snd (drive f (Suc j) st0))"
      and y2: "signals (snd (drive f (Suc j) st0)) = (ALL_RED, ALL_RED)"
      by simp_all
    from step have "d \<le> tick_dt (f j)" by blast
    with Suc.prems(2) have "t1 + 2 - fst (drive f (Suc j) st0) \<le> real n * d"
      by (simp add: fst_tick algebra_simps)
    from Suc.IH [OF y1 this] obtain b where b: "Suc j < b"
      "granting_phase r (snd (drive f b st0))"
      "\<forall>k. Suc j \<le> k \<and> k < b \<longrightarrow> all_red_phase r t1 (snd (drive f k st0))"
      "\<forall>k. Suc j < k \<and> k \<le> b \<longrightarrow> signals (snd (drive f k st0)) = (ALL_RED, ALL_RED)"
      by blast
    have "\<forall>k. j \<le> k \<and> k < b \<longrightarrow> all_red_phase r t1 (snd (drive f k st0))"
    proof (intro allI impI)
      fix k assume "j \<le> k \<and> k < b"
      then have "k = j \<or> (Suc j \<le> k \<and> k < b)" by auto
      then show "all_red_phase r t1 (snd (drive f k st0))"
        using Suc.prems(1) b(3) by blast
    qed
    moreover have "\<forall>k. j < k \<and> k \<le> b \<longrightarrow> signals (snd (drive f k st0)) = (ALL_RED, ALL_RED)"
    proof (intro allI impI)
      fix k assume "j < k \<and> k \<le> b"
      then have "k = Suc j \<or> (Suc j < k \<and> k \<le> b)" by auto
      then show "signals (snd (drive f k st0)) = (ALL_RED, ALL_RED)"
        using y2 b(4) by blast
    qed
    moreover from b(1) have "j < b" by simp
    ultimately show ?thesis
      using b(2) by blast
  qed
qed

lemma inv_drive:
  assumes "ctype \<noteq> ''fixed''" "\<forall>i. 0 \<le> tick_dt (f i)"
  shows "adaptive_inv (drive f k (S, SignalController_init ctype S))"
proof (induction k)
  case 0
  show ?case using assms(1) by (simp add: inv_init)
next
  case (Suc k)
  from assms(2) have "0 \<le> tick_dt (f k)" by blast
  with Suc show ?case by (simp add: inv_tick)
qed

text \<open>
  C2. An adaptive controller, created at any time \<open>S\<close>, is driven by the clock of the main
  loop through ticks whose \<open>dt_sim\<close> is at least some \<open>d > 0\<close>. If tick \<open>m\<close> finds no
  switch in progress and leaves one in progress (it called \<open>initiate_signal_switch\<close>), then,
  with \<open>r\<close> the road that was GREEN before that tick: the following states are in stage 0
  (yellow: \<open>r\<close> YELLOW and the other road RED from the first handled tick on) up to a tick
  \<open>a\<close>, then in stage 1 (all-red: both roads ALL_RED) up to a tick \<open>b\<close>, where the stage is
  2, and the next tick grants the new green: no switch is in progress any more, the other
  road is GREEN, \<open>r\<close> is RED, and the other road is the one with the older last-green
  timestamp. In every tick of the sequence the signals, the switching flag, the stage and the
  start time of the phase after the tick are the same whatever cars and arrivals the tick
  brings, so no pressure reading interrupts it.
\<close>

theorem switch_runs_to_completion:
  assumes adaptive: "ctype \<noteq> ''fixed''"
    and pos: "0 < d" and step: "\<forall>i. d \<le> tick_dt (f i)"
    and idle: "\<not> switching (snd (drive f m (S, SignalController_init ctype S)))"
    and started: "switching (snd (drive f (Suc m) (S, SignalController_init ctype S)))"
  shows "completes_switch f (S, SignalController_init ctype S) m"
proof -
  let ?st0 = "(S, SignalController_init ctype S)"
  let ?c = "\<lambda>k. snd (drive f k ?st0)"
  let ?T = "\<lambda>k. fst (drive f k ?st0)"
  from pos step have nonneg: "\<forall>i. 0 \<le> tick_dt (f i)"
    by (meson less_eq_real_def order_trans)
  have inv: "adaptive_inv (drive f k ?st0)" for k
    using adaptive nonneg by (rule inv_drive)
  from inv [of m] idle have "signals (?c m) = (GREEN, RED) \<or> signals (?c m) = (RED, GREEN)"
    by (simp add: adaptive_inv_def)
  then have "get_signal_state (?c m) MainRoad = GREEN \<or> get_signal_state (?c m) SideRoad = GREEN"
    by (auto simp add: signals_def get_signal_state_def)
  then obtain r where green: "get_signal_state (?c m) r = GREEN"
    by blast
  from nonneg have dtm: "0 \<le> tick_dt (f m)" by blast
  from started have started': "switching (snd (controller_tick (drive f m ?st0) (f m)))"
    by simp
  from initiation [OF inv [of m] dtm idle started' green]
  have y0: "yellow_phase r (?T (Suc m)) (?c (Suc m))"
    by (simp add: fst_tick)
  obtain n where "3 \<le> real n * d"
    using arch_steps [OF pos] by blast
  then have "?T (Suc m) + 3 - ?T (Suc m) \<le> real n * d" by simp
  from yellow_eventually [OF pos step y0 this] obtain a where a: "Suc m < a"
    "all_red_phase r (?T a) (?c a)"
    "\<forall>k. Suc m \<le> k \<and> k < a \<longrightarrow> yellow_phase r (?T (Suc m)) (?c k)"
    "\<forall>k. Suc m < k \<and> k \<le> a \<longrightarrow>
        get_signal_state (?c k) r = YELLOW \<and> get_signal_state (?c k) (other_road r) = RED"
    by blast
  obtain n' where "2 \<le> real n' * d"
    using arch_steps [OF pos] by blast
  then have "?T a + 2 - ?T a \<le> real n' * d" by simp
  from all_red_eventually [OF pos step a(2) this] obtain b where b: "a < b"
    "granting_phase r (?c b)"
    "\<forall>k. a \<le> k \<and> k < b \<longrightarrow> all_red_phase r (?T a) (?c k)"
    "\<forall>k. a < k \<and> k \<le> b \<longrightarrow> signals (?c k) = (ALL_RED, ALL_RED)"
    by blast
  from granting_step [OF b(2), of "f b"] have gr: "granted r (?c (Suc b))"
    by simp
  have ph0: "\<forall>k. Suc m \<le> k \<and> k < a \<longrightarrow> switching (?c k) \<and> switch_stage (?c k) = 0"
    using a(3) by (simp add: yellow_phase_def)
  have ph1: "\<forall>k. a \<le> k \<and> k < b \<longrightarrow> switching (?c k) \<and> switch_stage (?c k) = 1"
    using b(3) by (simp add: all_red_phase_def)
  have ph2: "switching (?c b) \<and> switch_stage (?c b) = 2"
    using b(2) by (simp add: granting_phase_def)
  have busy: "switching (?c k)" if "Suc m \<le> k \<and> k \<le> b" for k
  proof -
    from that have "(Suc m \<le> k \<and> k < a) \<or> (a \<le> k \<and> k < b) \<or> k = b" by auto
    then show ?thesis using ph0 ph1 ph2 by blast
  qed
  have ad: "controller_type (?c k) \<noteq> ''fixed''" for k
    using inv [of k] by (simp add: adaptive_inv_def)
  have indep: "\<forall>k tk. Suc m \<le> k \<and> k \<le> b \<and> tick_dt tk = tick_dt (f k) \<longrightarrow>
           fsm_view (snd (controller_tick (drive f k ?st0) tk)) = fsm_view (?c (Suc k))"
  proof (intro allI impI)
    fix k and tk :: Tick assume h: "Suc m \<le> k \<and> k \<le> b \<and> tick_dt tk = tick_dt (f k)"
    then have "switching (?c k)" using busy by blast
    from fsm_tick_cars [OF ad this, of tk "f k"] h
    show "fsm_view (snd (controller_tick (drive f k ?st0) tk)) = fsm_view (?c (Suc k))"
      by simp
  qed
  from gr have fin: "\<not> switching (?c (Suc b))"
    "get_signal_state (?c (Suc b)) (other_road r) = GREEN"
    "get_signal_state (?c (Suc b)) r = RED"
    "last_green (?c (Suc b)) (other_road r) < last_green (?c (Suc b)) r"
    by (simp_all add: granted_def)
  show ?thesis
    unfolding completes_switch_def
    using green a(1) b(1) ph0 a(4) ph1 b(4) ph2 fin indep
    by blast
qed

lemma starvation_ticks_dt: "1 \<le> tick_dt (starvation_ticks i)"
  by (simp add: starvation_ticks_def)

text \<open>
  The run \<open>starvation_ticks\<close> from time 0: its first tick, 12 s of main green with a car
  queued on the side road, starts the switch; every tick lasts at least 1 s; and after four
  ticks side is GREEN and main is RED.
\<close>

theorem switch_runs_to_completion_witness:
  "''ai'' \<noteq> ''fixed'' \<and> (0 :: real) < 1 \<and> (\<forall>i. 1 \<le> tick_dt (starvation_ticks i)) \<and>
   \<not> switching (snd (drive starvation_ticks 0 (0, SignalController_init ''ai'' 0))) \<and>
   switching (snd (drive starvation_ticks (Suc 0) (0, SignalController_init ''ai'' 0))) \<and>
   completes_switch starvation_ticks (0, SignalController_init ''ai'' 0) 0 \<and>
   signals (snd (drive starvation_ticks 4 (0, SignalController_init ''ai'' 0))) = (RED, GREEN) \<and>
   \<not> switching (snd (drive starvation_ticks 4 (0, SignalController_init ''ai'' 0)))"
proof -
  have h1: "''ai'' \<noteq> ''fixed''" by simp
  have h2: "(0 :: real) < 1" by simp
  have h3: "\<forall>i. 1 \<le> tick_dt (starvation_ticks i)"
    by (simp add: starvation_ticks_dt)
  have h4: "\<not> switching (snd (drive starvation_ticks 0 (0, SignalController_init ''ai'' 0)))"
    by (simp add: SignalController_init_def)
  have h5: "switching (snd (drive starvation_ticks (Suc 0) (0, SignalController_init ''ai'' 0)))"
    by (simp only: starvation_run_1) simp
  have c: "completes_switch starvation_ticks (0, SignalController_init ''ai'' 0) 0"
    using switch_runs_to_completion [OF h1 h2 h3 h4 h5] .
  have e: "signals (snd (drive starvation_ticks 4 (0, SignalController_init ''ai'' 0))) = (RED, GREEN)"
    "\<not> switching (snd (drive starvation_ticks 4 (0, SignalController_init ''ai'' 0)))"
    by (simp_all add: starvation_run_4 signals_def)
  from h1 h2 h3 h4 h5 c e show ?thesis by blast
qed

section \<open>Speed multiplier\<close>












lemma update_cars_empty: "cars sim = [] \<Longrightarrow> update_cars sim = sim"
  by (simp add: update_cars_def)





































end
